theory Spec2Isabelle
  imports Complex_Main "HOL-Library.Sublist"
begin

section \<open>Strings, errors and the interpreter's built-ins\<close>

text \<open>
  The program is \<^verbatim>\<open>src/app.py\<close>. A Python \<^verbatim>\<open>str\<close> is modelled by its UTF-8 encoding as
  a \<^typ>\<open>string\<close>: ASCII text is its own encoding, and the typographic characters of the
  reply templates (U+2011, U+2013, U+2014, U+2019) are the three bytes of their encoding.

  What the interpreter supplies and the program only calls is a parameter of the model.
  On text that is all ASCII, \<^verbatim>\<open>str.lower\<close> and \<^verbatim>\<open>str.upper\<close> add or subtract 32 on the
  letters and change nothing else; on any other text they follow the Unicode tables
  (U+212A, the Kelvin sign, lowers to \<open>k\<close>; U+017F, the long s, uppers to \<open>S\<close>), which the
  record \<open>builtins\<close> carries as \<open>lower_non_ascii\<close> and \<open>upper_non_ascii\<close>. The record also
  carries \<^verbatim>\<open>float\<close> on strings (\<open>None\<close> where it raises \<^verbatim>\<open>ValueError\<close>) and \<^verbatim>\<open>str\<close> on
  floats. Every function that reaches one of these takes the record as an argument, and
  every theorem holds for all values of it.
\<close>

datatype py_error =
  IndexError | KeyError | ZeroDivisionError | AttributeError | TypeError | ValueError

record builtins =
  lower_non_ascii :: "string \<Rightarrow> string"
  upper_non_ascii :: "string \<Rightarrow> string"
  float_of_str :: "string \<Rightarrow> real option"
  str_of_float :: "real \<Rightarrow> string"

definition is_ascii :: "string \<Rightarrow> bool" where
  "is_ascii text = list_all (\<lambda>c. (of_char c :: nat) < 128) text"

definition lower_char :: "char \<Rightarrow> char" where
  "lower_char c =
     (let n = (of_char c :: nat) in if 65 \<le> n \<and> n \<le> 90 then char_of (n + 32) else c)"

definition upper_char :: "char \<Rightarrow> char" where
  "upper_char c =
     (let n = (of_char c :: nat) in if 97 \<le> n \<and> n \<le> 122 then char_of (n - 32) else c)"

definition lower :: "builtins \<Rightarrow> string \<Rightarrow> string" where
  "lower py text = (if is_ascii text then map lower_char text else lower_non_ascii py text)"

definition upper :: "builtins \<Rightarrow> string \<Rightarrow> string" where
  "upper py text = (if is_ascii text then map upper_char text else upper_non_ascii py text)"

text \<open>
  The values a dictionary of a classifier result can hold: a string, a float, or
  \<^verbatim>\<open>None\<close>. \<^verbatim>\<open>v.upper()\<close> exists on strings only, \<^verbatim>\<open>str(v)\<close> is total, and \<^verbatim>\<open>float(v)\<close>
  raises \<^verbatim>\<open>TypeError\<close> on \<^verbatim>\<open>None\<close> and \<^verbatim>\<open>ValueError\<close> on a string that is not a number.
\<close>

datatype py_value = Str string | Float real | NoneValue

definition call_upper :: "builtins \<Rightarrow> py_value \<Rightarrow> py_error + string" where
  "call_upper py v = (case v of Str s \<Rightarrow> Inr (upper py s) | _ \<Rightarrow> Inl AttributeError)"

definition py_str :: "builtins \<Rightarrow> py_value \<Rightarrow> string" where
  "py_str py v = (case v of Str s \<Rightarrow> s | Float x \<Rightarrow> str_of_float py x | NoneValue \<Rightarrow> ''None'')"

definition py_float :: "builtins \<Rightarrow> py_value \<Rightarrow> py_error + real" where
  "py_float py v =
     (case v of
        Float x \<Rightarrow> Inr x
      | NoneValue \<Rightarrow> Inl TypeError
      | Str s \<Rightarrow> (case float_of_str py s of None \<Rightarrow> Inl ValueError | Some x \<Rightarrow> Inr x))"

text \<open>
  \<^verbatim>\<open>sub in t\<close> on strings: \<^verbatim>\<open>sub\<close> occurs in \<^verbatim>\<open>t\<close> as a contiguous run, searched from the
  left. The empty string occurs in every string.
\<close>

fun str_contains :: "string \<Rightarrow> string \<Rightarrow> bool" where
  "str_contains [] sub = (sub = [])"
| "str_contains (c # cs) sub = (prefix sub (c # cs) \<or> str_contains cs sub)"

text \<open>
  \<^verbatim>\<open>a % b\<close> on integers raises on a zero divisor and otherwise takes the sign of the
  divisor, as \<open>mod\<close> on \<^typ>\<open>int\<close> does. \<^verbatim>\<open>xs[i]\<close> counts a negative index from the end
  and raises outside the list.
\<close>

definition py_mod :: "int \<Rightarrow> int \<Rightarrow> py_error + int" where
  "py_mod a b = (if b = 0 then Inl ZeroDivisionError else Inr (a mod b))"

definition py_index :: "'a list \<Rightarrow> int \<Rightarrow> py_error + 'a" where
  "py_index xs i =
     (let len = int (length xs); j = (if i < 0 then i + len else i)
      in if j < 0 \<or> len \<le> j then Inl IndexError else Inr (xs ! nat j))"

text \<open>
  The built-in \<^verbatim>\<open>hash\<close> is not code of the program: the interpreter supplies it, and for
  strings it is keyed by a secret drawn when the process starts (unless the environment
  fixes \<^verbatim>\<open>PYTHONHASHSEED\<close>). Every function that calls \<^verbatim>\<open>hash\<close> therefore takes the hash
  function of the running process as its first argument.
\<close>

type_synonym hash_fn = "string \<Rightarrow> int"

section \<open>Crisis detection\<close>

definition crisis_terms :: "string list" where
  "crisis_terms =
     [''suicide'',
      ''kill myself'',
      ''end my life'',
      ''can't go on'',
      ''cant go on'',
      ''self harm'',
      ''self-harm'',
      ''hurt myself'',
      ''harm myself'',
      ''ending it'',
      ''no reason to live'']"

definition detect_crisis :: "builtins \<Rightarrow> string \<Rightarrow> bool" where
  "detect_crisis py text =
     (let t = lower py text in list_ex (\<lambda>phrase. str_contains t phrase) crisis_terms)"

section \<open>Sentiment-based replies\<close>

definition crisis_reply :: string where
  "crisis_reply =
     ''I'm really sorry you're feeling this way. Your life matters and you deserve support. '' @
     ''If you're in immediate danger, please call your local emergency number (e.g., 112/911/999).'' @ [CHR 0x0A, CHR 0x0A] @
     ''You can reach a crisis line right now:'' @ [CHR 0x0A] @
     ''- International: https://findahelpline.com/'' @ [CHR 0x0A] @
     ''- India: AASRA +91-9820466726 | https://aasra.info/'' @ [CHR 0x0A] @
     ''- US: 988 Suicide & Crisis Lifeline (call/text 988) | https://988lifeline.org/'' @ [CHR 0x0A, CHR 0x0A] @
     ''I'm here to listen. Would you like to tell me a little more about what's on your mind?''"

definition negative_strong_reply :: string where
  "negative_strong_reply =
     ''That sounds really tough, and it's completely okay to feel this way. '' @
     ''You don't have to handle everything at once. Maybe try a small grounding step: '' @
     ''take 3 slow breaths (in 4s, hold 4s, out 6s). If you'd like, we can break the situation '' @
     ''into smaller parts together. What part feels heaviest right now?''"

definition negative_mild_reply :: string where
  "negative_mild_reply =
     ''I hear some heaviness in what you shared. You're not alone. '' @
     ''What would feel most supportive for you right now'' @ [CHR 0xE2, CHR 0x80, CHR 0x94] @
     ''venting, problem-solving, or a simple check-in?''"

definition positive_reply :: string where
  "positive_reply =
     ''I love the hopeful energy here. That's a strength you can build on. '' @
     ''What helped you get to this point today? Maybe we can note a small win to carry forward.''"

definition neutral_reply :: string where
  "neutral_reply =
     ''Thanks for sharing. I'm here with you. '' @
     ''If you'd like, I can offer a gentle prompt: what's one small action that could make the next hour '' @
     ''a bit easier?''"

text \<open>
  The score is a Python float; the model reads it as the real number it denotes, and the
  literal \<^verbatim>\<open>0.7\<close> as the real \<open>0.7\<close>.
\<close>

definition build_empathetic_response :: "string \<Rightarrow> real \<Rightarrow> string \<Rightarrow> bool \<Rightarrow> string" where
  "build_empathetic_response label score user_text crisis =
     (if crisis then crisis_reply
      else if label = ''NEGATIVE'' then
        (if score \<ge> 0.7 then negative_strong_reply else negative_mild_reply)
      else if label = ''POSITIVE'' then positive_reply
      else neutral_reply)"

section \<open>Classifier results\<close>

text \<open>
  A classifier is called with the text and returns a list of dictionaries, one per input,
  each with a \<^verbatim>\<open>label\<close> and a \<^verbatim>\<open>score\<close>: a string and a float when the classifier keeps
  its contract, any value otherwise. A key may be absent (\<open>None\<close>);
  \<^verbatim>\<open>r.get(key, default)\<close> then gives the default.
\<close>

record prediction =
  pred_label :: "py_value option"
  pred_score :: "py_value option"

type_synonym pipeline = "string \<Rightarrow> prediction list"

definition classify_emotion :: "builtins \<Rightarrow> string \<Rightarrow> pipeline \<Rightarrow> py_error + (string \<times> real)" where
  "classify_emotion py user_text emo_clf =
     (case py_index (emo_clf user_text) 0 of
        Inl err \<Rightarrow> Inl err
      | Inr r \<Rightarrow>
          (let emo_label =
                 lower py (py_str py (case pred_label r of None \<Rightarrow> Str ''neutral'' | Some v \<Rightarrow> v))
           in case py_float py (case pred_score r of None \<Rightarrow> Float 0.5 | Some v \<Rightarrow> v) of
                Inl err \<Rightarrow> Inl err
              | Inr emo_score \<Rightarrow> Inr (emo_label, emo_score)))"

section \<open>Emotion-specific replies\<close>

definition sadness_templates :: "string list" where
  "sadness_templates =
     [''It sounds really heavy. It's okay to feel sad. A tiny step like writing down one worry or taking a 2'' @ [CHR 0xE2, CHR 0x80, CHR 0x91] @ ''minute stretch can help. What feels smallest to try?'',
      ''I'' @ [CHR 0xE2, CHR 0x80, CHR 0x99] @ ''m hearing a lot of weight in this. You deserve gentleness right now. Could a short break with some music or a warm drink help even 1%?'']"

definition anger_templates :: "string list" where
  "anger_templates =
     [''That anger makes sense if things feel unfair. Want to try a 10'' @ [CHR 0xE2, CHR 0x80, CHR 0x91] @ ''second pause'' @ [CHR 0xE2, CHR 0x80, CHR 0x94] @ ''inhale 4, hold 4, exhale 6'' @ [CHR 0xE2, CHR 0x80, CHR 0x94] @ ''then we can sort what'' @ [CHR 0xE2, CHR 0x80, CHR 0x99] @ ''s in your control?'',
      ''Your feelings are valid. We can channel this energy. Would listing the top 1'' @ [CHR 0xE2, CHR 0x80, CHR 0x93] @ ''2 triggers help us plan a next step?'']"

definition fear_templates :: "string list" where
  "fear_templates =
     [''When worry spikes, your body is trying to protect you. Let'' @ [CHR 0xE2, CHR 0x80, CHR 0x99] @ ''s ground: name 5 things you see, 4 you feel, 3 you hear. I'' @ [CHR 0xE2, CHR 0x80, CHR 0x99] @ ''m with you.'',
      ''Anxiety can feel loud. Let'' @ [CHR 0xE2, CHR 0x80, CHR 0x99] @ ''s shrink the moment: what'' @ [CHR 0xE2, CHR 0x80, CHR 0x99] @ ''s the next tiny action (30 seconds or less) you could take?'']"

definition disgust_templates :: "string list" where
  "disgust_templates =
     [''Feeling turned off or disappointed can be protective. If you zoom out, is there a boundary you'' @ [CHR 0xE2, CHR 0x80, CHR 0x99] @ ''d like to set to feel safer?'',
      ''It'' @ [CHR 0xE2, CHR 0x80, CHR 0x99] @ ''s okay to step back from what doesn'' @ [CHR 0xE2, CHR 0x80, CHR 0x99] @ ''t feel right. What would a kinder environment look like for you today?'']"

definition surprise_templates :: "string list" where
  "surprise_templates =
     [''That'' @ [CHR 0xE2, CHR 0x80, CHR 0x99] @ ''s a lot to take in at once. Want to unpack it together, one small piece at a time?'',
      ''Unexpected moments can shake us. What'' @ [CHR 0xE2, CHR 0x80, CHR 0x99] @ ''s one thing you know for sure right now?'']"

definition neutral_templates :: "string list" where
  "neutral_templates =
     [''Thanks for sharing. I'' @ [CHR 0xE2, CHR 0x80, CHR 0x99] @ ''m here with you. What'' @ [CHR 0xE2, CHR 0x80, CHR 0x99] @ ''s one small action that could make the next hour a bit easier?'',
      ''I'' @ [CHR 0xE2, CHR 0x80, CHR 0x99] @ ''m listening. If you'' @ [CHR 0xE2, CHR 0x80, CHR 0x99] @ ''d like, we can choose between venting, problem'' @ [CHR 0xE2, CHR 0x80, CHR 0x91] @ ''solving, or a simple check'' @ [CHR 0xE2, CHR 0x80, CHR 0x91] @ ''in.'']"

definition joy_templates :: "string list" where
  "joy_templates =
     [''I love the hopeful energy here. What helped you get to this point today? Let'' @ [CHR 0xE2, CHR 0x80, CHR 0x99] @ ''s note a small win to carry forward.'',
      ''That spark matters. What would help you keep this momentum for the next hour?'']"

text \<open>The dictionary \<^verbatim>\<open>templates\<close>, in the order of the source; its keys are distinct.\<close>

definition templates :: "(string \<times> string list) list" where
  "templates =
     [(''sadness'', sadness_templates),
      (''anger'', anger_templates),
      (''fear'', fear_templates),
      (''disgust'', disgust_templates),
      (''surprise'', surprise_templates),
      (''neutral'', neutral_templates),
      (''joy'', joy_templates)]"

definition build_emotion_specific_response :: "hash_fn \<Rightarrow> string \<Rightarrow> string \<Rightarrow> py_error + string" where
  "build_emotion_specific_response hash emotion user_text =
     (let key = (if emotion \<in> set (map fst templates) then emotion else ''neutral'') in
      case map_of templates key of
        None \<Rightarrow> Inl KeyError
      | Some choices \<Rightarrow>
          (case py_mod \<bar>hash user_text\<bar> (int (length choices)) of
             Inl err \<Rightarrow> Inl err
           | Inr idx \<Rightarrow> py_index choices idx))"

section \<open>The engine\<close>

record analysis =
  label :: string
  score :: real
  emotion :: string
  emotion_score :: real
  crisis :: bool
  reply :: string

definition analyze_and_respond :: "hash_fn \<Rightarrow> builtins \<Rightarrow> string \<Rightarrow> pipeline \<Rightarrow> pipeline \<Rightarrow> py_error + analysis" where
  "analyze_and_respond hash py user_text clf emo_clf =
     (case py_index (clf user_text) 0 of
        Inl err \<Rightarrow> Inl err
      | Inr result \<Rightarrow>
     (case call_upper py (case pred_label result of None \<Rightarrow> Str ''NEUTRAL'' | Some v \<Rightarrow> v) of
        Inl err \<Rightarrow> Inl err
      | Inr upper_label \<Rightarrow>
     (case py_float py (case pred_score result of None \<Rightarrow> Float 0.5 | Some v \<Rightarrow> v) of
        Inl err \<Rightarrow> Inl err
      | Inr float_score \<Rightarrow>
          (let label = upper_label; score = float_score;
               crisis = detect_crisis py user_text
           in case classify_emotion py user_text emo_clf of
                Inl err \<Rightarrow> Inl err
              | Inr (emo_label, emo_score) \<Rightarrow>
                  (case (if crisis then Inr (build_empathetic_response label score user_text crisis)
                         else if label = ''NEGATIVE'' \<or> emo_label \<in> {''sadness'', ''anger'', ''fear'', ''disgust''}
                           then build_emotion_specific_response hash emo_label user_text
                         else if label = ''POSITIVE'' \<or> emo_label = ''joy''
                           then build_emotion_specific_response hash ''joy'' user_text
                         else build_emotion_specific_response hash ''neutral'' user_text) of
                     Inl err \<Rightarrow> Inl err
                   | Inr reply_text \<Rightarrow>
                       Inr \<lparr>label = label, score = score, emotion = emo_label,
                            emotion_score = emo_score, crisis = crisis, reply = reply_text\<rparr>)))))"

section \<open>The coping tip of the chat loop\<close>

definition tips :: "string list" where
  "tips =
     [''Mini reset: inhale 4, hold 4, exhale 6.'',
      ''Micro'' @ [CHR 0xE2, CHR 0x80, CHR 0x91] @ ''action: sip water and roll your shoulders.'',
      ''Grounding: name 5 things you can see right now.'',
      ''30'' @ [CHR 0xE2, CHR 0x80, CHR 0x91] @ ''second pause: look out a window or step away from the screen.'']"

text \<open>
  The chat loop has no function of its own: on each message it calls
  \<^verbatim>\<open>analyze_and_respond\<close>, shows the reply, and under the condition below shows one of
  the tips in a toast. \<open>coping_tip\<close> is that conditional: the tip shown, or \<open>None\<close> when
  the block is skipped. \<open>chat_turn\<close> is the body of the \<^verbatim>\<open>try\<close>: the analysis and the tip,
  or the exception that the \<^verbatim>\<open>except\<close> clause reports.
\<close>

definition coping_tip :: "hash_fn \<Rightarrow> string \<Rightarrow> analysis \<Rightarrow> py_error + string option" where
  "coping_tip hash user_input result =
     (let label = analysis.label result; crisis = analysis.crisis result;
          emo = analysis.emotion result
      in if \<not> crisis \<and> (label = ''NEGATIVE'' \<or> emo \<in> {''sadness'', ''anger'', ''fear'', ''disgust''})
         then (case py_mod \<bar>hash user_input\<bar> (int (length tips)) of
                 Inl err \<Rightarrow> Inl err
               | Inr idx \<Rightarrow>
                   (case py_index tips idx of Inl err \<Rightarrow> Inl err | Inr tip \<Rightarrow> Inr (Some tip)))
         else Inr None)"

definition chat_turn :: "hash_fn \<Rightarrow> builtins \<Rightarrow> string \<Rightarrow> pipeline \<Rightarrow> pipeline \<Rightarrow> py_error + (analysis \<times> string option)" where
  "chat_turn hash py user_input clf emo_clf =
     (case analyze_and_respond hash py user_input clf emo_clf of
        Inl err \<Rightarrow> Inl err
      | Inr result \<Rightarrow>
          (case coping_tip hash user_input result of
             Inl err \<Rightarrow> Inl err
           | Inr tip \<Rightarrow> Inr (result, tip)))"

text \<open>
  Fixtures for concrete runs: a classifier that answers every text with the one
  dictionary \<^verbatim>\<open>{"label": l, "score": s}\<close>, one that answers with a given dictionary
  (which may lack keys or hold other values), one that answers with no dictionary, a
  process whose \<^verbatim>\<open>hash\<close> gives \<open>n\<close> on every string, one whose \<^verbatim>\<open>hash\<close> gives the length
  of the string, and a stand-in for the built-ins that is only ever used on ASCII text
  and on values of the expected type.
\<close>

definition fixed_pipeline :: "string \<Rightarrow> real \<Rightarrow> pipeline" where
  "fixed_pipeline l s text = [\<lparr>pred_label = Some (Str l), pred_score = Some (Float s)\<rparr>]"

definition raw_pipeline :: "prediction \<Rightarrow> pipeline" where
  "raw_pipeline r text = [r]"

definition empty_pipeline :: pipeline where
  "empty_pipeline text = []"

definition const_hash :: "int \<Rightarrow> hash_fn" where
  "const_hash n text = n"

definition length_hash :: hash_fn where
  "length_hash text = int (length text)"

definition ascii_builtins :: builtins where
  "ascii_builtins =
     \<lparr>lower_non_ascii = (\<lambda>text. text), upper_non_ascii = (\<lambda>text. text),
      float_of_str = (\<lambda>s. None), str_of_float = (\<lambda>x. [])\<rparr>"

section \<open>Auxiliary facts\<close>

lemma str_contains_sublist: "str_contains t sub = sublist sub t"
proof (induction t)
  case Nil
  show ?case by simp
next
  case (Cons c cs)
  show ?case
  proof (cases sub)
    case Nil
    then show ?thesis by simp
  next
    case (Cons x xs)
    with Cons.IH show ?thesis by (simp add: sublist_Cons_right)
  qed
qed

lemma py_mod_pos: "0 < b \<Longrightarrow> py_mod a b = Inr (a mod b)"
  by (simp add: py_mod_def)

lemma py_index_in_range:
  "0 \<le> i \<Longrightarrow> i < int (length xs) \<Longrightarrow> py_index xs i = Inr (xs ! nat i)"
  by (simp add: py_index_def Let_def)

lemma py_index_first: "py_index (x # xs) 0 = Inr x"
  by (simp add: py_index_def Let_def)

lemma py_index_empty: "py_index [] i = Inl IndexError"
  by (simp add: py_index_def Let_def)

lemma select_by_hash:
  assumes "xs \<noteq> []"
  shows "(case py_mod \<bar>h\<bar> (int (length xs)) of Inl err \<Rightarrow> Inl err | Inr idx \<Rightarrow> py_index xs idx)
           = Inr (xs ! nat (\<bar>h\<bar> mod int (length xs)))"
proof -
  from assms have pos: "0 < int (length xs)" by simp
  then have "0 \<le> \<bar>h\<bar> mod int (length xs)" and "\<bar>h\<bar> mod int (length xs) < int (length xs)"
    by simp_all
  with pos show ?thesis by (simp add: py_mod_pos py_index_in_range)
qed

lemma template_lengths:
  "length sadness_templates = 2" "length anger_templates = 2" "length fear_templates = 2"
  "length disgust_templates = 2" "length surprise_templates = 2"
  "length neutral_templates = 2" "length joy_templates = 2"
  by (simp_all add: sadness_templates_def anger_templates_def fear_templates_def
      disgust_templates_def surprise_templates_def neutral_templates_def joy_templates_def)

lemma tips_length: "length tips = 4"
  by (simp add: tips_def)

lemma template_keys:
  "set (map fst templates) = {''sadness'', ''anger'', ''fear'', ''disgust'', ''surprise'', ''neutral'', ''joy''}"
  by (simp add: templates_def) 

lemma templates_lookup:
  "map_of templates ''sadness'' = Some sadness_templates"
  "map_of templates ''anger'' = Some anger_templates"
  "map_of templates ''fear'' = Some fear_templates"
  "map_of templates ''disgust'' = Some disgust_templates"
  "map_of templates ''surprise'' = Some surprise_templates"
  "map_of templates ''neutral'' = Some neutral_templates"
  "map_of templates ''joy'' = Some joy_templates"
  by (simp_all add: templates_def)

lemma templates_two: "map_of templates k = Some choices \<Longrightarrow> length choices = 2"
  by (auto simp: templates_def template_lengths split: if_splits)

lemma templates_unknown: "k \<notin> set (map fst templates) \<Longrightarrow> map_of templates k = None"
  by (simp add: map_of_eq_None_iff)

lemma templates_known: "e \<in> set (map fst templates) \<Longrightarrow> \<exists>c. map_of templates e = Some c"
  by (cases "map_of templates e") (simp_all add: map_of_eq_None_iff)

lemma emotion_reply_value:
  "build_emotion_specific_response hash e t =
     Inr ((case map_of templates e of None \<Rightarrow> neutral_templates | Some c \<Rightarrow> c)
            ! nat (\<bar>hash t\<bar> mod 2))"
proof (cases "e \<in> set (map fst templates)")
  case True
  then obtain c where c: "map_of templates e = Some c"
    using templates_known by blast
  then have len: "length c = 2" by (rule templates_two)
  then have ne: "c \<noteq> []" by auto
  have sel: "(case py_mod \<bar>hash t\<bar> (int (length c)) of Inl err \<Rightarrow> Inl err | Inr idx \<Rightarrow> py_index c idx)
           = Inr (c ! nat (\<bar>hash t\<bar> mod 2))"
    using select_by_hash [OF ne, of "hash t"] len by simp
  have "build_emotion_specific_response hash e t =
      (case py_mod \<bar>hash t\<bar> (int (length c)) of Inl err \<Rightarrow> Inl err | Inr idx \<Rightarrow> py_index c idx)"
    unfolding build_emotion_specific_response_def Let_def using True c by simp
  with sel c show ?thesis by simp
next
  case False
  then have none: "map_of templates e = None" by (rule templates_unknown)
  have ne: "neutral_templates \<noteq> []" using template_lengths(6) by auto
  have sel: "(case py_mod \<bar>hash t\<bar> (int (length neutral_templates)) of Inl err \<Rightarrow> Inl err
               | Inr idx \<Rightarrow> py_index neutral_templates idx)
           = Inr (neutral_templates ! nat (\<bar>hash t\<bar> mod 2))"
    using select_by_hash [OF ne, of "hash t"] by (simp add: template_lengths)
  have "build_emotion_specific_response hash e t =
      (case py_mod \<bar>hash t\<bar> (int (length neutral_templates)) of Inl err \<Rightarrow> Inl err
               | Inr idx \<Rightarrow> py_index neutral_templates idx)"
    unfolding build_emotion_specific_response_def Let_def using False
    by (simp add: templates_lookup)
  with sel none show ?thesis by simp
qed

lemma classify_emotion_value:
  "emo_clf t = \<lparr>pred_label = ev, pred_score = map_option Float esc\<rparr> # es \<Longrightarrow>
   classify_emotion py t emo_clf =
     Inr (lower py (py_str py (case ev of None \<Rightarrow> Str ''neutral'' | Some v \<Rightarrow> v)),
          case esc of None \<Rightarrow> 0.5 | Some x \<Rightarrow> x)"
  by (cases esc) (simp_all add: classify_emotion_def py_index_first py_float_def)

lemma analyze_and_respond_value:
  assumes "clf t = \<lparr>pred_label = map_option Str lbl, pred_score = map_option Float sc\<rparr> # ss"
    and "emo_clf t = \<lparr>pred_label = ev, pred_score = map_option Float esc\<rparr> # es"
  shows "analyze_and_respond hash py t clf emo_clf =
     Inr \<lparr>label = upper py (case lbl of None \<Rightarrow> ''NEUTRAL'' | Some l \<Rightarrow> l),
          score = (case sc of None \<Rightarrow> 0.5 | Some x \<Rightarrow> x),
          emotion = lower py (py_str py (case ev of None \<Rightarrow> Str ''neutral'' | Some v \<Rightarrow> v)),
          emotion_score = (case esc of None \<Rightarrow> 0.5 | Some x \<Rightarrow> x),
          crisis = detect_crisis py t,
          reply =
            (if detect_crisis py t then crisis_reply
             else (if upper py (case lbl of None \<Rightarrow> ''NEUTRAL'' | Some l \<Rightarrow> l) = ''NEGATIVE''
                      \<or> lower py (py_str py (case ev of None \<Rightarrow> Str ''neutral'' | Some v \<Rightarrow> v))
                          \<in> {''sadness'', ''anger'', ''fear'', ''disgust''}
                   then (case map_of templates
                               (lower py (py_str py (case ev of None \<Rightarrow> Str ''neutral'' | Some v \<Rightarrow> v))) of
                           None \<Rightarrow> neutral_templates | Some c \<Rightarrow> c)
                   else if upper py (case lbl of None \<Rightarrow> ''NEUTRAL'' | Some l \<Rightarrow> l) = ''POSITIVE''
                      \<or> lower py (py_str py (case ev of None \<Rightarrow> Str ''neutral'' | Some v \<Rightarrow> v)) = ''joy''
                   then joy_templates
                   else neutral_templates) ! nat (\<bar>hash t\<bar> mod 2))\<rparr>"
proof -
  have ce: "classify_emotion py t emo_clf =
      Inr (lower py (py_str py (case ev of None \<Rightarrow> Str ''neutral'' | Some v \<Rightarrow> v)),
           case esc of None \<Rightarrow> 0.5 | Some x \<Rightarrow> x)"
    using assms(2) by (rule classify_emotion_value)
  have first: "py_index (clf t) 0
      = Inr \<lparr>pred_label = map_option Str lbl, pred_score = map_option Float sc\<rparr>"
    using assms(1) by (simp add: py_index_first)
  have l: "call_upper py (case pred_label \<lparr>pred_label = map_option Str lbl,
        pred_score = map_option Float sc\<rparr> of None \<Rightarrow> Str ''NEUTRAL'' | Some v \<Rightarrow> v)
      = Inr (upper py (case lbl of None \<Rightarrow> ''NEUTRAL'' | Some l \<Rightarrow> l))"
    by (cases lbl) (simp_all add: call_upper_def)
  have s: "py_float py (case pred_score \<lparr>pred_label = map_option Str lbl,
        pred_score = map_option Float sc\<rparr> of None \<Rightarrow> Float 0.5 | Some v \<Rightarrow> v)
      = Inr (case sc of None \<Rightarrow> 0.5 | Some x \<Rightarrow> x)"
    by (cases sc) (simp_all add: py_float_def)
  show ?thesis
    unfolding analyze_and_respond_def first sum.case l s ce Let_def
    by (simp add: emotion_reply_value templates_lookup build_empathetic_response_def
        del: insert_iff empty_iff)
qed

lemma coping_tip_value:
  "coping_tip hash t res =
     Inr (if \<not> crisis res \<and> (label res = ''NEGATIVE''
               \<or> emotion res \<in> {''sadness'', ''anger'', ''fear'', ''disgust''})
          then Some (tips ! nat (\<bar>hash t\<bar> mod 4)) else None)"
proof -
  have m: "py_mod \<bar>hash t\<bar> (int (length tips)) = Inr (\<bar>hash t\<bar> mod 4)"
    by (simp add: py_mod_pos tips_length)
  have i: "py_index tips (\<bar>hash t\<bar> mod 4) = Inr (tips ! nat (\<bar>hash t\<bar> mod 4))"
    by (rule py_index_in_range) (simp_all add: tips_length)
  show ?thesis
    unfolding coping_tip_def Let_def m by (simp add: i del: insert_iff empty_iff)
qed

text \<open>
  The exceptions the engine can raise all come from reading the classifier results:
  \<^verbatim>\<open>IndexError\<close> from \<^verbatim>\<open>clf(user_text)[0]\<close> when a classifier returns no dictionary,
  \<^verbatim>\<open>AttributeError\<close> from \<^verbatim>\<open>.upper()\<close> on a sentiment label that is not a string, and
  \<^verbatim>\<open>TypeError\<close> or \<^verbatim>\<open>ValueError\<close> from \<^verbatim>\<open>float\<close> on a score that is not a number.
\<close>

lemma analyze_and_respond_empty:
  "clf t = [] \<Longrightarrow> analyze_and_respond hash py t clf emo_clf = Inl IndexError"
  by (simp add: analyze_and_respond_def py_index_empty)

lemma fixed_pipeline_first:
  "fixed_pipeline l s text
     = \<lparr>pred_label = map_option Str (Some l), pred_score = map_option Float (Some s)\<rparr> # []"
  by (simp add: fixed_pipeline_def)

lemma fixed_pipeline_emotion:
  "fixed_pipeline l s text
     = \<lparr>pred_label = Some (Str l), pred_score = map_option Float (Some s)\<rparr> # []"
  by (simp add: fixed_pipeline_def)

lemma case_examples:
  "upper py ''NEGATIVE'' = ''NEGATIVE''" "upper py ''POSITIVE'' = ''POSITIVE''"
  "upper py ''NEUTRAL'' = ''NEUTRAL''"
  "lower py ''neutral'' = ''neutral''" "lower py ''surprise'' = ''surprise''"
  "lower py ''sadness'' = ''sadness''" "lower py ''joy'' = ''joy''"
  by (simp_all add: upper_def lower_def is_ascii_def upper_char_def lower_char_def)

lemma py_str_Str: "py_str py (Str s) = s"
  by (simp add: py_str_def)

section \<open>Properties of the engine\<close>

text \<open>
  C1. Whenever the crisis detector fires on the text, the engine's reply is the fixed
  crisis message, whatever sentiment label, sentiment score and emotion label the
  classifiers supply (a label string and a float score, each possibly absent; for the
  emotion label any value at all); the result carries the crisis flag, and the chat loop
  shows no coping tip.
\<close>

theorem crisis_reply_overrides:
  assumes "detect_crisis py user_text"
    and "clf user_text = \<lparr>pred_label = map_option Str lbl, pred_score = map_option Float sc\<rparr> # ss"
    and "emo_clf user_text = \<lparr>pred_label = ev, pred_score = map_option Float esc\<rparr> # es"
  shows "\<exists>res. analyze_and_respond hash py user_text clf emo_clf = Inr res
           \<and> crisis res \<and> reply res = crisis_reply
           \<and> chat_turn hash py user_text clf emo_clf = Inr (res, None)"
proof -
  from analyze_and_respond_value [where clf = clf and emo_clf = emo_clf and t = user_text
      and hash = hash and py = py, OF assms(2,3)] assms(1)
  obtain res where res: "analyze_and_respond hash py user_text clf emo_clf = Inr res"
    and c: "crisis res" and r: "reply res = crisis_reply"
    by simp
  from c have "coping_tip hash user_text res = Inr None"
    by (simp add: coping_tip_value)
  with res have ct: "chat_turn hash py user_text clf emo_clf = Inr (res, None)"
    by (simp add: chat_turn_def)
  show ?thesis
    by (rule exI [where x = res]) (intro conjI res c r ct)
qed

theorem crisis_reply_overrides_witness:
  "detect_crisis ascii_builtins ''I can't go on anymore''
   \<and> (\<exists>res. analyze_and_respond (const_hash 1) ascii_builtins ''I can't go on anymore''
               (fixed_pipeline ''NEGATIVE'' 0.99) (fixed_pipeline ''sadness'' 0.8) = Inr res
          \<and> crisis res \<and> reply res = crisis_reply
          \<and> chat_turn (const_hash 1) ascii_builtins ''I can't go on anymore''
               (fixed_pipeline ''NEGATIVE'' 0.99) (fixed_pipeline ''sadness'' 0.8) = Inr (res, None))"
proof -
  have d: "detect_crisis ascii_builtins ''I can't go on anymore''" by code_simp
  from d crisis_reply_overrides [where user_text = "''I can't go on anymore''"
      and clf = "fixed_pipeline ''NEGATIVE'' 0.99" and emo_clf = "fixed_pipeline ''sadness'' 0.8"
      and hash = "const_hash 1" and py = ascii_builtins,
      OF d fixed_pipeline_first fixed_pipeline_emotion]
  show ?thesis by (rule conjI)
qed

lemma detect_crisis_sublist:
  "detect_crisis py text \<longleftrightarrow> (\<exists>phrase\<in>set crisis_terms. sublist phrase (lower py text))"
  by (simp add: detect_crisis_def Let_def list_ex_iff str_contains_sublist)

lemma lower_char_other:
  "\<not> (65 \<le> (of_char c :: nat) \<and> (of_char c :: nat) \<le> 90) \<Longrightarrow> lower_char c = c"
  by (auto simp: lower_char_def Let_def)

lemma crisis_terms_lowercase:
  "list_all (\<lambda>phrase. list_ex (\<lambda>c. 97 \<le> (of_char c :: nat) \<and> (of_char c :: nat) \<le> 122) phrase)
     crisis_terms"
  by (simp add: crisis_terms_def)

lemma crisis_terms_letter:
  "phrase \<in> set crisis_terms \<Longrightarrow>
     \<exists>c\<in>set phrase. 97 \<le> (of_char c :: nat) \<and> (of_char c :: nat) \<le> 122"
  using crisis_terms_lowercase unfolding list_all_iff list_ex_iff by blast

lemma no_lowercase_no_crisis:
  assumes "\<forall>c\<in>set t. (of_char c :: nat) < 97 \<or> 122 < (of_char c :: nat)"
  shows "\<not> (\<exists>phrase\<in>set crisis_terms. sublist phrase t)"
proof
  assume "\<exists>phrase\<in>set crisis_terms. sublist phrase t"
  then obtain phrase where p: "phrase \<in> set crisis_terms" and sub: "sublist phrase t"
    by blast
  from crisis_terms_letter [OF p] obtain c where c: "c \<in> set phrase"
    and letter: "97 \<le> (of_char c :: nat) \<and> (of_char c :: nat) \<le> 122"
    by blast
  from sub c have "c \<in> set t" using set_mono_sublist by blast
  with assms have "(of_char c :: nat) < 97 \<or> 122 < (of_char c :: nat)" by blast
  with letter show False by arith
qed

text \<open>
  The Kelvin sign: where the interpreter lowers U+212A to \<open>k\<close>, as Python does, the
  detector fires on a text that has no ASCII letter k.
\<close>

lemma kelvin_sign_text:
  assumes "lower_non_ascii py ([CHR 0xE2, CHR 0x84, CHR 0xAA] @ ''ILL MYSELF'') = ''kill myself''"
  shows "detect_crisis py ([CHR 0xE2, CHR 0x84, CHR 0xAA] @ ''ILL MYSELF'')"
proof -
  have "\<not> is_ascii ([CHR 0xE2, CHR 0x84, CHR 0xAA] @ ''ILL MYSELF'')"
    by (simp add: is_ascii_def)
  then have "lower py ([CHR 0xE2, CHR 0x84, CHR 0xAA] @ ''ILL MYSELF'') = ''kill myself''"
    using assms by (simp add: lower_def)
  then show ?thesis
    by (simp add: detect_crisis_def crisis_terms_def)
qed

text \<open>
  The long s: where the interpreter uppers U+017F to \<open>S\<close>, as Python does, a sentiment
  label spelled with it reads as POSITIVE.
\<close>

lemma long_s_label:
  assumes "upper_non_ascii py (''po'' @ [CHR 0xC5, CHR 0xBF] @ ''itive'') = ''POSITIVE''"
  shows "call_upper py (Str (''po'' @ [CHR 0xC5, CHR 0xBF] @ ''itive'')) = Inr ''POSITIVE''"
proof -
  have "\<not> is_ascii (''po'' @ [CHR 0xC5, CHR 0xBF] @ ''itive'')"
    by (simp add: is_ascii_def)
  then show ?thesis using assms by (simp add: call_upper_def upper_def)
qed

text \<open>
  C2. \<open>detect_crisis\<close> is true exactly when the lowercased text contains one of the
  phrases of the crisis lexicon as a contiguous substring, whatever \<^verbatim>\<open>str.lower\<close> does
  beyond ASCII; so it is false on every text whose lowercased form contains none of
  them, on the empty text, on every ASCII text without a letter (which includes ASCII
  whitespace), and on every text that lowercasing leaves unchanged and that has no
  lowercase ASCII letter (which includes whitespace of any script).
\<close>

theorem detect_crisis_iff_lexicon_substring:
  "(detect_crisis py text \<longleftrightarrow>
      (\<exists>phrase\<in>set crisis_terms. \<exists>before after. lower py text = before @ phrase @ after))
   \<and> ((\<forall>phrase\<in>set crisis_terms. \<not> (\<exists>before after. lower py text = before @ phrase @ after))
        \<longrightarrow> \<not> detect_crisis py text)
   \<and> \<not> detect_crisis py []
   \<and> ((\<forall>c\<in>set text. (of_char c :: nat) < 65
                      \<or> (90 < (of_char c :: nat) \<and> (of_char c :: nat) < 97)
                      \<or> (122 < (of_char c :: nat) \<and> (of_char c :: nat) < 128))
        \<longrightarrow> \<not> detect_crisis py text)
   \<and> (lower py text = text
         \<and> (\<forall>c\<in>set text. (of_char c :: nat) < 97 \<or> 122 < (of_char c :: nat))
        \<longrightarrow> \<not> detect_crisis py text)"
proof -
  have iff: "detect_crisis py text \<longleftrightarrow>
      (\<exists>phrase\<in>set crisis_terms. \<exists>before after. lower py text = before @ phrase @ after)"
    by (simp add: detect_crisis_sublist sublist_def)
  have empty: "\<not> detect_crisis py []"
    by (simp add: detect_crisis_def lower_def is_ascii_def crisis_terms_def)
  have ascii: "\<not> detect_crisis py text"
    if ws: "\<forall>c\<in>set text. (of_char c :: nat) < 65
                      \<or> (90 < (of_char c :: nat) \<and> (of_char c :: nat) < 97)
                      \<or> (122 < (of_char c :: nat) \<and> (of_char c :: nat) < 128)"
  proof -
    from ws have a: "is_ascii text" unfolding is_ascii_def list_all_iff by fastforce
    have same: "map lower_char text = text"
    proof (rule map_idI)
      fix c assume "c \<in> set text"
      with ws have "(of_char c :: nat) < 65
                      \<or> (90 < (of_char c :: nat) \<and> (of_char c :: nat) < 97)
                      \<or> (122 < (of_char c :: nat) \<and> (of_char c :: nat) < 128)" by blast
      then show "lower_char c = c" by (intro lower_char_other) arith
    qed
    from a same have l: "lower py text = text" by (simp add: lower_def)
    have "\<forall>c\<in>set text. (of_char c :: nat) < 97 \<or> 122 < (of_char c :: nat)"
      using ws by fastforce
    from no_lowercase_no_crisis [OF this] show ?thesis
      unfolding detect_crisis_sublist l .
  qed
  have uncased: "\<not> detect_crisis py text"
    if u: "lower py text = text
         \<and> (\<forall>c\<in>set text. (of_char c :: nat) < 97 \<or> 122 < (of_char c :: nat))"
  proof -
    from u have l: "lower py text = text"
      and n: "\<forall>c\<in>set text. (of_char c :: nat) < 97 \<or> 122 < (of_char c :: nat)" by simp_all
    from no_lowercase_no_crisis [OF n] show ?thesis
      unfolding detect_crisis_sublist l .
  qed
  from iff empty ascii uncased show ?thesis by blast
qed

theorem detect_crisis_iff_lexicon_substring_witness:
  "(\<exists>phrase\<in>set crisis_terms. \<exists>before after.
       lower ascii_builtins ''I want to END MY LIFE'' = before @ phrase @ after)
   \<and> \<not> detect_crisis ascii_builtins [CHR '' '', CHR 0x09, CHR 0x0A, CHR '' '']
   \<and> \<not> (\<exists>phrase\<in>set crisis_terms. \<exists>before after.
       lower ascii_builtins ''I got the job!'' = before @ phrase @ after)"
proof (intro conjI)
  have a: "detect_crisis ascii_builtins ''I want to END MY LIFE''" by code_simp
  from detect_crisis_iff_lexicon_substring [of ascii_builtins "''I want to END MY LIFE''"]
  have "detect_crisis ascii_builtins ''I want to END MY LIFE'' \<longleftrightarrow>
      (\<exists>phrase\<in>set crisis_terms. \<exists>before after.
         lower ascii_builtins ''I want to END MY LIFE'' = before @ phrase @ after)"
    by (rule conjunct1)
  from iffD1 [OF this a]
  show "\<exists>phrase\<in>set crisis_terms. \<exists>before after.
       lower ascii_builtins ''I want to END MY LIFE'' = before @ phrase @ after" .
next
  have c: "\<forall>c\<in>set [CHR '' '', CHR 0x09, CHR 0x0A, CHR '' ''].
      (of_char c :: nat) < 65
        \<or> (90 < (of_char c :: nat) \<and> (of_char c :: nat) < 97)
        \<or> (122 < (of_char c :: nat) \<and> (of_char c :: nat) < 128)" by simp
  have "(\<forall>c\<in>set [CHR '' '', CHR 0x09, CHR 0x0A, CHR '' ''].
      (of_char c :: nat) < 65
        \<or> (90 < (of_char c :: nat) \<and> (of_char c :: nat) < 97)
        \<or> (122 < (of_char c :: nat) \<and> (of_char c :: nat) < 128))
      \<longrightarrow> \<not> detect_crisis ascii_builtins [CHR '' '', CHR 0x09, CHR 0x0A, CHR '' '']"
    by (rule detect_crisis_iff_lexicon_substring
      [of ascii_builtins "[CHR '' '', CHR 0x09, CHR 0x0A, CHR '' '']",
       THEN conjunct2, THEN conjunct2, THEN conjunct2, THEN conjunct1])
  from mp [OF this c]
  show "\<not> detect_crisis ascii_builtins [CHR '' '', CHR 0x09, CHR 0x0A, CHR '' '']" .
next
  have b: "\<not> detect_crisis ascii_builtins ''I got the job!''" by code_simp
  from detect_crisis_iff_lexicon_substring [of ascii_builtins "''I got the job!''"]
  have "detect_crisis ascii_builtins ''I got the job!'' \<longleftrightarrow>
      (\<exists>phrase\<in>set crisis_terms. \<exists>before after.
         lower ascii_builtins ''I got the job!'' = before @ phrase @ after)"
    by (rule conjunct1)
  with b show "\<not> (\<exists>phrase\<in>set crisis_terms. \<exists>before after.
         lower ascii_builtins ''I got the job!'' = before @ phrase @ after)"
    by (simp only: simp_thms)
qed

lemma pick_mem: "length c = 2 \<Longrightarrow> c ! nat (\<bar>h\<bar> mod 2) \<in> set c"
proof -
  assume len: "length c = 2"
  have "0 \<le> \<bar>h\<bar> mod 2" and "\<bar>h\<bar> mod 2 < 2" by simp_all
  then have "nat (\<bar>h\<bar> mod 2) < length c" using len by simp
  then show ?thesis by (rule nth_mem)
qed

lemma emotion_choices_length:
  "length (case map_of templates k of None \<Rightarrow> neutral_templates | Some c \<Rightarrow> c) = 2"
  by (cases "map_of templates k") (simp_all add: template_lengths templates_two)

lemma negative_strong_not_template:
  "negative_strong_reply \<notin> set sadness_templates" "negative_strong_reply \<notin> set anger_templates"
  "negative_strong_reply \<notin> set fear_templates" "negative_strong_reply \<notin> set disgust_templates"
  "negative_strong_reply \<notin> set surprise_templates" "negative_strong_reply \<notin> set neutral_templates"
  "negative_strong_reply \<notin> set joy_templates"
  by (simp_all add: negative_strong_reply_def sadness_templates_def anger_templates_def
      fear_templates_def disgust_templates_def surprise_templates_def neutral_templates_def
      joy_templates_def)

lemma negative_strong_not_choice:
  "negative_strong_reply \<notin> set (case map_of templates k of None \<Rightarrow> neutral_templates | Some c \<Rightarrow> c)"
proof (cases "map_of templates k")
  case None
  then show ?thesis by (simp add: negative_strong_not_template)
next
  case (Some c)
  then have "(k, c) \<in> set templates" by (rule map_of_SomeD)
  then have "c \<in> {sadness_templates, anger_templates, fear_templates, disgust_templates,
      surprise_templates, neutral_templates, joy_templates}"
    by (auto simp: templates_def)
  with Some show ?thesis by (auto simp: negative_strong_not_template)
qed

text \<open>
  C3. On a text without crisis language, with sentiment label NEGATIVE (after upper-casing)
  and a score of at least 0.7, \<open>build_empathetic_response\<close> itself returns the
  strong-negative template (the threshold is inclusive), but the engine does not call it
  there: the reply of \<open>analyze_and_respond\<close> is the template that
  \<open>build_emotion_specific_response\<close> selects for the emotion label, and it is never the
  strong-negative template.
\<close>

theorem negative_high_score_reply:
  assumes "\<not> detect_crisis py user_text"
    and "clf user_text = \<lparr>pred_label = map_option Str lbl, pred_score = Some (Float sc)\<rparr> # ss"
    and "upper py (case lbl of None \<Rightarrow> ''NEUTRAL'' | Some l \<Rightarrow> l) = ''NEGATIVE''"
    and "0.7 \<le> sc"
    and "emo_clf user_text = \<lparr>pred_label = ev, pred_score = map_option Float esc\<rparr> # es"
  shows "build_empathetic_response ''NEGATIVE'' sc user_text False = negative_strong_reply
    \<and> (\<exists>res. analyze_and_respond hash py user_text clf emo_clf = Inr res
          \<and> score res = sc
          \<and> build_emotion_specific_response hash
                (lower py (py_str py (case ev of None \<Rightarrow> Str ''neutral'' | Some v \<Rightarrow> v))) user_text
              = Inr (reply res)
          \<and> reply res \<noteq> negative_strong_reply)"
proof (intro conjI)
  show "build_empathetic_response ''NEGATIVE'' sc user_text False = negative_strong_reply"
    using assms(4) by (simp add: build_empathetic_response_def)
next
  let ?E = "lower py (py_str py (case ev of None \<Rightarrow> Str ''neutral'' | Some v \<Rightarrow> v))"
  let ?c = "case map_of templates ?E of None \<Rightarrow> neutral_templates | Some c \<Rightarrow> c"
  let ?r = "?c ! nat (\<bar>hash user_text\<bar> mod 2)"
  from assms(2) have first: "clf user_text
      = \<lparr>pred_label = map_option Str lbl, pred_score = map_option Float (Some sc)\<rparr> # ss"
    by simp
  from analyze_and_respond_value [where clf = clf and emo_clf = emo_clf and t = user_text
      and hash = hash and py = py, OF first assms(5)] assms(1) assms(3)
  obtain res where res: "analyze_and_respond hash py user_text clf emo_clf = Inr res"
    and sc: "score res = sc" and r: "reply res = ?r"
    by simp
  have "?r \<in> set ?c" by (rule pick_mem) (rule emotion_choices_length)
  with negative_strong_not_choice [of ?E] have "?r \<noteq> negative_strong_reply" by metis
  with res sc r emotion_reply_value [of hash ?E user_text]
  show "\<exists>res. analyze_and_respond hash py user_text clf emo_clf = Inr res
          \<and> score res = sc
          \<and> build_emotion_specific_response hash ?E user_text = Inr (reply res)
          \<and> reply res \<noteq> negative_strong_reply"
    by simp
qed

theorem negative_high_score_reply_witness:
  "build_empathetic_response ''NEGATIVE'' 0.8 ''I feel awful'' False = negative_strong_reply
    \<and> (\<exists>res. analyze_and_respond (const_hash 0) ascii_builtins ''I feel awful''
               (fixed_pipeline ''NEGATIVE'' 0.8) (fixed_pipeline ''neutral'' 0.9) = Inr res
          \<and> score res = 0.8
          \<and> build_emotion_specific_response (const_hash 0) ''neutral'' ''I feel awful''
              = Inr (reply res)
          \<and> reply res \<noteq> negative_strong_reply)"
proof -
  have nc: "\<not> detect_crisis ascii_builtins ''I feel awful''" by code_simp
  have f: "fixed_pipeline ''NEGATIVE'' 0.8 ''I feel awful''
      = \<lparr>pred_label = map_option Str (Some ''NEGATIVE''), pred_score = Some (Float 0.8)\<rparr> # []"
    by (simp add: fixed_pipeline_def)
  have l: "upper ascii_builtins (case Some ''NEGATIVE'' of None \<Rightarrow> ''NEUTRAL'' | Some l \<Rightarrow> l)
      = ''NEGATIVE''"
    by (simp add: case_examples)
  have ge: "(0.7::real) \<le> 0.8" by simp
  from negative_high_score_reply [where user_text = "''I feel awful''"
      and clf = "fixed_pipeline ''NEGATIVE'' 0.8" and emo_clf = "fixed_pipeline ''neutral'' 0.9"
      and hash = "const_hash 0" and py = ascii_builtins,
      OF nc f l ge fixed_pipeline_emotion]
  show ?thesis by (simp add: case_examples py_str_Str)
qed

text \<open>
  C3, as stated, fails: with sentiment NEGATIVE at score 0.8 and emotion neutral on a
  text without crisis language, the engine replies with a template of the neutral
  emotion, not with the strong-negative template.
\<close>

theorem negative_strong_counterexample:
  "\<not> detect_crisis ascii_builtins ''I feel awful''
   \<and> analyze_and_respond (const_hash 0) ascii_builtins ''I feel awful''
        (fixed_pipeline ''NEGATIVE'' 0.8) (fixed_pipeline ''neutral'' 0.9)
      = Inr \<lparr>label = ''NEGATIVE'', score = 0.8, emotion = ''neutral'', emotion_score = 0.9,
             crisis = False, reply = neutral_templates ! 0\<rparr>
   \<and> neutral_templates ! 0 \<noteq> negative_strong_reply"
proof (intro conjI)
  show nc: "\<not> detect_crisis ascii_builtins ''I feel awful''" by code_simp
  show "analyze_and_respond (const_hash 0) ascii_builtins ''I feel awful''
        (fixed_pipeline ''NEGATIVE'' 0.8) (fixed_pipeline ''neutral'' 0.9)
      = Inr \<lparr>label = ''NEGATIVE'', score = 0.8, emotion = ''neutral'', emotion_score = 0.9,
             crisis = False, reply = neutral_templates ! 0\<rparr>"
    using nc
    by (simp add: analyze_and_respond_value [OF fixed_pipeline_first fixed_pipeline_emotion]
        case_examples py_str_Str templates_lookup const_hash_def)
  show "neutral_templates ! 0 \<noteq> negative_strong_reply"
    by (simp add: neutral_templates_def negative_strong_reply_def)
qed

lemma other_emotion_choices:
  assumes "k \<notin> {''sadness'', ''anger'', ''fear'', ''disgust'', ''surprise'', ''joy''}"
  shows "(case map_of templates k of None \<Rightarrow> neutral_templates | Some c \<Rightarrow> c) = neutral_templates"
proof (cases "map_of templates k")
  case None
  then show ?thesis by simp
next
  case (Some c)
  then have "(k, c) \<in> set templates" by (rule map_of_SomeD)
  then have "(k, c) \<in> {(''sadness'', sadness_templates), (''anger'', anger_templates),
      (''fear'', fear_templates), (''disgust'', disgust_templates),
      (''surprise'', surprise_templates), (''neutral'', neutral_templates),
      (''joy'', joy_templates)}"
    by (simp only: templates_def set_simps)
  with assms have "c = neutral_templates" by simp
  with Some show ?thesis by simp
qed

text \<open>
  C4. On a text without crisis language, with sentiment label NEGATIVE and an emotion
  label outside sadness, anger, fear and disgust, the engine selects from the template
  list of the emotion label itself when that label is surprise or joy, and from the
  neutral template list for neutral and for every label it does not know.
\<close>

theorem negative_other_emotion_reply:
  assumes "\<not> detect_crisis py user_text"
    and "clf user_text = \<lparr>pred_label = map_option Str lbl, pred_score = map_option Float sc\<rparr> # ss"
    and "upper py (case lbl of None \<Rightarrow> ''NEUTRAL'' | Some l \<Rightarrow> l) = ''NEGATIVE''"
    and "emo_clf user_text = \<lparr>pred_label = ev, pred_score = map_option Float esc\<rparr> # es"
    and "lower py (py_str py (case ev of None \<Rightarrow> Str ''neutral'' | Some v \<Rightarrow> v)) = emo"
    and "emo \<notin> {''sadness'', ''anger'', ''fear'', ''disgust''}"
  shows "\<exists>res. analyze_and_respond hash py user_text clf emo_clf = Inr res
          \<and> emotion res = emo
          \<and> (emo = ''surprise'' \<longrightarrow> reply res \<in> set surprise_templates)
          \<and> (emo = ''joy'' \<longrightarrow> reply res \<in> set joy_templates)
          \<and> (emo \<notin> {''surprise'', ''joy''} \<longrightarrow> reply res \<in> set neutral_templates)"
proof -
  let ?c = "case map_of templates emo of None \<Rightarrow> neutral_templates | Some c \<Rightarrow> c"
  let ?r = "?c ! nat (\<bar>hash user_text\<bar> mod 2)"
  from analyze_and_respond_value [where clf = clf and emo_clf = emo_clf and t = user_text
      and hash = hash and py = py, OF assms(2) assms(4)] assms(1) assms(3) assms(5)
  obtain res where res: "analyze_and_respond hash py user_text clf emo_clf = Inr res"
    and em: "emotion res = emo" and r: "reply res = ?r"
    by simp
  have mem: "?r \<in> set ?c" by (rule pick_mem) (rule emotion_choices_length)
  have 1: "reply res \<in> set surprise_templates" if "emo = ''surprise''"
    using mem r that by (simp add: templates_lookup)
  have 2: "reply res \<in> set joy_templates" if "emo = ''joy''"
    using mem r that by (simp add: templates_lookup)
  have 3: "reply res \<in> set neutral_templates" if "emo \<notin> {''surprise'', ''joy''}"
  proof -
    from that assms(6)
    have "emo \<notin> {''sadness'', ''anger'', ''fear'', ''disgust'', ''surprise'', ''joy''}"
      by simp
    then have "?c = neutral_templates" by (rule other_emotion_choices)
    with mem r show ?thesis by simp
  qed
  show ?thesis
  proof (intro exI [where x = res] conjI impI)
    show "analyze_and_respond hash py user_text clf emo_clf = Inr res" by (rule res)
    show "emotion res = emo" by (rule em)
    show "reply res \<in> set surprise_templates" if "emo = ''surprise''" using that by (rule 1)
    show "reply res \<in> set joy_templates" if "emo = ''joy''" using that by (rule 2)
    show "reply res \<in> set neutral_templates" if "emo \<notin> {''surprise'', ''joy''}"
      using that by (rule 3)
  qed
qed

theorem negative_other_emotion_reply_witness:
  "\<exists>res. analyze_and_respond (const_hash 0) ascii_builtins ''That was unexpected''
            (fixed_pipeline ''NEGATIVE'' 0.6) (fixed_pipeline ''surprise'' 0.9) = Inr res
          \<and> emotion res = ''surprise''
          \<and> reply res \<in> set surprise_templates"
proof -
  have nc: "\<not> detect_crisis ascii_builtins ''That was unexpected''" by code_simp
  have l: "upper ascii_builtins (case Some ''NEGATIVE'' of None \<Rightarrow> ''NEUTRAL'' | Some l \<Rightarrow> l)
      = ''NEGATIVE''"
    by (simp add: case_examples)
  have e: "lower ascii_builtins (py_str ascii_builtins
      (case Some (Str ''surprise'') of None \<Rightarrow> Str ''neutral'' | Some v \<Rightarrow> v)) = ''surprise''"
    by (simp add: case_examples py_str_Str)
  have n: "''surprise'' \<notin> {''sadness'', ''anger'', ''fear'', ''disgust''}" by simp
  from negative_other_emotion_reply [where user_text = "''That was unexpected''"
      and clf = "fixed_pipeline ''NEGATIVE'' 0.6" and emo_clf = "fixed_pipeline ''surprise'' 0.9"
      and hash = "const_hash 0" and py = ascii_builtins,
      OF nc fixed_pipeline_first l fixed_pipeline_emotion e n]
  show ?thesis by simp
qed

text \<open>
  C4, as stated, fails: with sentiment NEGATIVE and emotion surprise the engine replies
  with a surprise template, which is neither a neutral template nor the mild-negative one.
\<close>

theorem negative_surprise_counterexample:
  "\<not> detect_crisis ascii_builtins ''That was unexpected''
   \<and> analyze_and_respond (const_hash 0) ascii_builtins ''That was unexpected''
        (fixed_pipeline ''NEGATIVE'' 0.6) (fixed_pipeline ''surprise'' 0.9)
      = Inr \<lparr>label = ''NEGATIVE'', score = 0.6, emotion = ''surprise'', emotion_score = 0.9,
             crisis = False, reply = surprise_templates ! 0\<rparr>
   \<and> surprise_templates ! 0 \<notin> set neutral_templates
   \<and> surprise_templates ! 0 \<noteq> negative_mild_reply"
proof (intro conjI)
  show nc: "\<not> detect_crisis ascii_builtins ''That was unexpected''" by code_simp
  show "analyze_and_respond (const_hash 0) ascii_builtins ''That was unexpected''
        (fixed_pipeline ''NEGATIVE'' 0.6) (fixed_pipeline ''surprise'' 0.9)
      = Inr \<lparr>label = ''NEGATIVE'', score = 0.6, emotion = ''surprise'', emotion_score = 0.9,
             crisis = False, reply = surprise_templates ! 0\<rparr>"
    using nc
    by (simp add: analyze_and_respond_value [OF fixed_pipeline_first fixed_pipeline_emotion]
        case_examples py_str_Str templates_lookup const_hash_def)
  show "surprise_templates ! 0 \<notin> set neutral_templates"
    by (simp add: neutral_templates_def surprise_templates_def)
  show "surprise_templates ! 0 \<noteq> negative_mild_reply"
    by (simp add: surprise_templates_def negative_mild_reply_def)
qed

lemma emotion_reply_same_hash:
  assumes "hash1 t = hash2 t"
  shows "build_emotion_specific_response hash1 e t = build_emotion_specific_response hash2 e t"
  unfolding emotion_reply_value using assms by simp

lemma analyze_same_hash:
  assumes "hash1 t = hash2 t"
  shows "analyze_and_respond hash1 py t clf emo_clf = analyze_and_respond hash2 py t clf emo_clf"
proof -
  have same: "build_emotion_specific_response hash1 e t = build_emotion_specific_response hash2 e t"
    for e using assms by (rule emotion_reply_same_hash)
  show ?thesis unfolding analyze_and_respond_def same ..
qed

lemma coping_tip_same_hash:
  assumes "hash1 t = hash2 t"
  shows "coping_tip hash1 t res = coping_tip hash2 t res"
  unfolding coping_tip_value using assms by simp

text \<open>
  C5. Within one process the synthesis is deterministic, and more: the reply and the tip
  depend on the process only through the value its \<^verbatim>\<open>hash\<close> gives to the text. Two runs
  with the same text and classifiers, under hash functions that agree on that text, give
  the same analysis and the same tip.
\<close>

theorem same_hash_same_turn:
  assumes "hash1 user_text = hash2 user_text"
  shows "chat_turn hash1 py user_text clf emo_clf = chat_turn hash2 py user_text clf emo_clf"
proof -
  have a: "analyze_and_respond hash1 py user_text clf emo_clf
      = analyze_and_respond hash2 py user_text clf emo_clf"
    using assms by (rule analyze_same_hash)
  have c: "coping_tip hash1 user_text res = coping_tip hash2 user_text res" for res
    using assms by (rule coping_tip_same_hash)
  show ?thesis unfolding chat_turn_def a c ..
qed

theorem same_hash_same_turn_witness:
  "const_hash 10 ''I feel sad'' = length_hash ''I feel sad''
   \<and> chat_turn (const_hash 10) ascii_builtins ''I feel sad'' (fixed_pipeline ''NEGATIVE'' 0.9)
         (fixed_pipeline ''sadness'' 0.8)
     = chat_turn length_hash ascii_builtins ''I feel sad'' (fixed_pipeline ''NEGATIVE'' 0.9)
         (fixed_pipeline ''sadness'' 0.8)"
proof -
  have h: "const_hash 10 ''I feel sad'' = length_hash ''I feel sad''"
    by (simp add: const_hash_def length_hash_def)
  from h same_hash_same_turn [where ?hash1.0 = "const_hash 10" and ?hash2.0 = length_hash
      and user_text = "''I feel sad''" and py = ascii_builtins, OF h]
  show ?thesis by (rule conjI)
qed

text \<open>
  C5, as stated, fails across processes: the selection uses the interpreter's \<^verbatim>\<open>hash\<close>,
  and two processes that hash the same text to 0 and to 1 return different replies and
  different tips for identical arguments.
\<close>

theorem restart_counterexample:
  "chat_turn (const_hash 0) ascii_builtins ''I feel sad'' (fixed_pipeline ''NEGATIVE'' 0.9)
       (fixed_pipeline ''sadness'' 0.8)
     = Inr (\<lparr>label = ''NEGATIVE'', score = 0.9, emotion = ''sadness'', emotion_score = 0.8,
              crisis = False, reply = sadness_templates ! 0\<rparr>, Some (tips ! 0))
   \<and> chat_turn (const_hash 1) ascii_builtins ''I feel sad'' (fixed_pipeline ''NEGATIVE'' 0.9)
       (fixed_pipeline ''sadness'' 0.8)
     = Inr (\<lparr>label = ''NEGATIVE'', score = 0.9, emotion = ''sadness'', emotion_score = 0.8,
              crisis = False, reply = sadness_templates ! 1\<rparr>, Some (tips ! 1))
   \<and> sadness_templates ! 0 \<noteq> sadness_templates ! 1
   \<and> tips ! 0 \<noteq> tips ! 1"
proof (intro conjI)
  have nc: "\<not> detect_crisis ascii_builtins ''I feel sad''" by code_simp
  show "chat_turn (const_hash 0) ascii_builtins ''I feel sad'' (fixed_pipeline ''NEGATIVE'' 0.9)
       (fixed_pipeline ''sadness'' 0.8)
     = Inr (\<lparr>label = ''NEGATIVE'', score = 0.9, emotion = ''sadness'', emotion_score = 0.8,
              crisis = False, reply = sadness_templates ! 0\<rparr>, Some (tips ! 0))"
    using nc
    by (simp add: chat_turn_def coping_tip_value
        analyze_and_respond_value [OF fixed_pipeline_first fixed_pipeline_emotion]
        case_examples py_str_Str templates_lookup const_hash_def)
  show "chat_turn (const_hash 1) ascii_builtins ''I feel sad'' (fixed_pipeline ''NEGATIVE'' 0.9)
       (fixed_pipeline ''sadness'' 0.8)
     = Inr (\<lparr>label = ''NEGATIVE'', score = 0.9, emotion = ''sadness'', emotion_score = 0.8,
              crisis = False, reply = sadness_templates ! 1\<rparr>, Some (tips ! 1))"
    using nc
    by (simp add: chat_turn_def coping_tip_value
        analyze_and_respond_value [OF fixed_pipeline_first fixed_pipeline_emotion]
        case_examples py_str_Str templates_lookup const_hash_def)
  show "sadness_templates ! 0 \<noteq> sadness_templates ! 1"
    by (simp add: sadness_templates_def)
  show "tips ! 0 \<noteq> tips ! 1"
    by (simp add: tips_def)
qed

lemma crisis_reply_contacts:
  "str_contains crisis_reply ''112/911/999''"
  "str_contains crisis_reply ''https://findahelpline.com/''"
  "str_contains crisis_reply ''+91-9820466726''"
  "str_contains crisis_reply ''988''"
  by (simp_all add: crisis_reply_def)

text \<open>
  C6. The crisis reply contains emergency-contact references (the emergency numbers
  112/911/999, the helpline directory, the AASRA number and the 988 lifeline), for every
  label and score passed to \<open>build_empathetic_response\<close> with the crisis flag set, and
  for every sentiment and emotion result the classifiers return on a crisis text.
\<close>

theorem crisis_reply_has_emergency_contacts:
  "str_contains (build_empathetic_response lbl sc user_text True) ''112/911/999''
   \<and> str_contains (build_empathetic_response lbl sc user_text True) ''https://findahelpline.com/''
   \<and> str_contains (build_empathetic_response lbl sc user_text True) ''+91-9820466726''
   \<and> str_contains (build_empathetic_response lbl sc user_text True) ''988''
   \<and> (detect_crisis py user_text
        \<and> clf user_text = \<lparr>pred_label = map_option Str l, pred_score = map_option Float s\<rparr> # ss
        \<and> emo_clf user_text = \<lparr>pred_label = ev, pred_score = map_option Float esc\<rparr> # es \<longrightarrow>
        (\<exists>res. analyze_and_respond hash py user_text clf emo_clf = Inr res
           \<and> str_contains (reply res) ''112/911/999''
           \<and> str_contains (reply res) ''https://findahelpline.com/''
           \<and> str_contains (reply res) ''+91-9820466726''
           \<and> str_contains (reply res) ''988''))"
proof -
  have b: "build_empathetic_response lbl sc user_text True = crisis_reply"
    by (simp add: build_empathetic_response_def)
  have e: "\<exists>res. analyze_and_respond hash py user_text clf emo_clf = Inr res
           \<and> str_contains (reply res) ''112/911/999''
           \<and> str_contains (reply res) ''https://findahelpline.com/''
           \<and> str_contains (reply res) ''+91-9820466726''
           \<and> str_contains (reply res) ''988''"
    if h: "detect_crisis py user_text
        \<and> clf user_text = \<lparr>pred_label = map_option Str l, pred_score = map_option Float s\<rparr> # ss
        \<and> emo_clf user_text = \<lparr>pred_label = ev, pred_score = map_option Float esc\<rparr> # es"
  proof -
    from h have d: "detect_crisis py user_text" by (rule conjunct1)
    from h have s: "clf user_text
        = \<lparr>pred_label = map_option Str l, pred_score = map_option Float s\<rparr> # ss"
      by (rule conjunct2 [THEN conjunct1])
    from h have e: "emo_clf user_text
        = \<lparr>pred_label = ev, pred_score = map_option Float esc\<rparr> # es"
      by (rule conjunct2 [THEN conjunct2])
    from analyze_and_respond_value [where clf = clf and emo_clf = emo_clf and t = user_text
        and hash = hash and py = py, OF s e] d
    obtain res where res: "analyze_and_respond hash py user_text clf emo_clf = Inr res"
      and r: "reply res = crisis_reply"
      by simp
    show ?thesis
      by (rule exI [where x = res]) (simp add: res r crisis_reply_contacts)
  qed
  show ?thesis unfolding b using e by (simp add: crisis_reply_contacts)
qed

theorem crisis_reply_has_emergency_contacts_witness:
  "detect_crisis ascii_builtins ''I can't go on anymore''
   \<and> (\<exists>res. analyze_and_respond (const_hash 7) ascii_builtins ''I can't go on anymore''
              (fixed_pipeline ''POSITIVE'' 0.99) (fixed_pipeline ''joy'' 0.9) = Inr res
           \<and> str_contains (reply res) ''112/911/999''
           \<and> str_contains (reply res) ''https://findahelpline.com/''
           \<and> str_contains (reply res) ''+91-9820466726''
           \<and> str_contains (reply res) ''988'')"
proof -
  have d: "detect_crisis ascii_builtins ''I can't go on anymore''" by code_simp
  have h: "detect_crisis ascii_builtins ''I can't go on anymore''
      \<and> fixed_pipeline ''POSITIVE'' 0.99 ''I can't go on anymore''
          = \<lparr>pred_label = map_option Str (Some ''POSITIVE''),
              pred_score = map_option Float (Some 0.99)\<rparr> # []
      \<and> fixed_pipeline ''joy'' 0.9 ''I can't go on anymore''
          = \<lparr>pred_label = Some (Str ''joy''), pred_score = map_option Float (Some 0.9)\<rparr> # []"
    by (intro conjI d fixed_pipeline_first fixed_pipeline_emotion)
  have "detect_crisis ascii_builtins ''I can't go on anymore''
      \<and> fixed_pipeline ''POSITIVE'' 0.99 ''I can't go on anymore''
          = \<lparr>pred_label = map_option Str (Some ''POSITIVE''),
              pred_score = map_option Float (Some 0.99)\<rparr> # []
      \<and> fixed_pipeline ''joy'' 0.9 ''I can't go on anymore''
          = \<lparr>pred_label = Some (Str ''joy''), pred_score = map_option Float (Some 0.9)\<rparr> # [] \<longrightarrow>
     (\<exists>res. analyze_and_respond (const_hash 7) ascii_builtins ''I can't go on anymore''
              (fixed_pipeline ''POSITIVE'' 0.99) (fixed_pipeline ''joy'' 0.9) = Inr res
           \<and> str_contains (reply res) ''112/911/999''
           \<and> str_contains (reply res) ''https://findahelpline.com/''
           \<and> str_contains (reply res) ''+91-9820466726''
           \<and> str_contains (reply res) ''988'')"
    by (rule crisis_reply_has_emergency_contacts [where user_text = "''I can't go on anymore''"
      and clf = "fixed_pipeline ''POSITIVE'' 0.99" and emo_clf = "fixed_pipeline ''joy'' 0.9"
      and hash = "const_hash 7" and py = ascii_builtins
      and lbl = "''POSITIVE''" and sc = "0.99",
      THEN conjunct2, THEN conjunct2, THEN conjunct2, THEN conjunct2])
  from d mp [OF this h] show ?thesis by (rule conjI)
qed

lemma tip_mem: "tips ! nat (\<bar>h\<bar> mod 4) \<in> set tips"
proof -
  have "0 \<le> \<bar>h\<bar> mod 4" and "\<bar>h\<bar> mod 4 < 4" by simp_all
  then have "nat (\<bar>h\<bar> mod 4) < length tips" by (simp add: tips_length)
  then show ?thesis by (rule nth_mem)
qed

text \<open>
  C7. In a chat turn (each classifier returning a dictionary with a label string and a
  float score, each possibly absent; for the emotion label any value) a coping tip is
  shown exactly when the text has no crisis language and the sentiment label is NEGATIVE
  or the emotion is one of sadness, anger, fear and disgust, that is, exactly when the
  reply is the emotion-specific one for the detected emotion; the tip is then the entry
  of the fixed tips list at the index that the hash of the text selects. On a crisis
  text, and on the joy and neutral outcomes, there is no tip.
\<close>

theorem coping_tip_iff_negative_non_crisis:
  assumes "clf user_text = \<lparr>pred_label = map_option Str lbl, pred_score = map_option Float sc\<rparr> # ss"
    and "emo_clf user_text = \<lparr>pred_label = ev, pred_score = map_option Float esc\<rparr> # es"
  shows "\<exists>res tip. chat_turn hash py user_text clf emo_clf = Inr (res, tip)
     \<and> analyze_and_respond hash py user_text clf emo_clf = Inr res
     \<and> crisis res = detect_crisis py user_text
     \<and> label res = upper py (case lbl of None \<Rightarrow> ''NEUTRAL'' | Some l \<Rightarrow> l)
     \<and> emotion res = lower py (py_str py (case ev of None \<Rightarrow> Str ''neutral'' | Some v \<Rightarrow> v))
     \<and> (tip \<noteq> None \<longleftrightarrow>
           \<not> crisis res \<and> (label res = ''NEGATIVE''
              \<or> emotion res \<in> {''sadness'', ''anger'', ''fear'', ''disgust''}))
     \<and> (tip \<noteq> None \<longrightarrow>
           tip = Some (tips ! nat (\<bar>hash user_text\<bar> mod 4))
           \<and> tips ! nat (\<bar>hash user_text\<bar> mod 4) \<in> set tips
           \<and> build_emotion_specific_response hash (emotion res) user_text = Inr (reply res))
     \<and> (tip = None \<longrightarrow>
           reply res = crisis_reply \<or> reply res \<in> set joy_templates
           \<or> reply res \<in> set neutral_templates)"
proof -
  let ?L = "upper py (case lbl of None \<Rightarrow> ''NEUTRAL'' | Some l \<Rightarrow> l)"
  let ?E = "lower py (py_str py (case ev of None \<Rightarrow> Str ''neutral'' | Some v \<Rightarrow> v))"
  let ?N = "?L = ''NEGATIVE'' \<or> ?E \<in> {''sadness'', ''anger'', ''fear'', ''disgust''}"
  let ?i = "nat (\<bar>hash user_text\<bar> mod 2)"
  let ?tip = "if \<not> detect_crisis py user_text \<and> ?N
              then Some (tips ! nat (\<bar>hash user_text\<bar> mod 4)) else None"
  from analyze_and_respond_value [where clf = clf and emo_clf = emo_clf and t = user_text
      and hash = hash and py = py, OF assms]
  obtain res where res: "analyze_and_respond hash py user_text clf emo_clf = Inr res"
    and c: "crisis res = detect_crisis py user_text" and l: "label res = ?L"
    and em: "emotion res = ?E"
    and r: "reply res =
        (if detect_crisis py user_text then crisis_reply
         else (if ?N then (case map_of templates ?E of None \<Rightarrow> neutral_templates | Some c \<Rightarrow> c)
               else if ?L = ''POSITIVE'' \<or> ?E = ''joy'' then joy_templates
               else neutral_templates) ! ?i)"
    by simp
  have t: "coping_tip hash user_text res = Inr ?tip"
    unfolding coping_tip_value c l em by (simp del: insert_iff empty_iff)
  have ct: "chat_turn hash py user_text clf emo_clf = Inr (res, ?tip)"
    by (simp add: chat_turn_def res t del: insert_iff empty_iff)
  have iff: "?tip \<noteq> None \<longleftrightarrow> \<not> crisis res \<and> (label res = ''NEGATIVE''
              \<or> emotion res \<in> {''sadness'', ''anger'', ''fear'', ''disgust''})"
    unfolding c l em by (simp del: insert_iff empty_iff)
  have some: "?tip = Some (tips ! nat (\<bar>hash user_text\<bar> mod 4))
           \<and> tips ! nat (\<bar>hash user_text\<bar> mod 4) \<in> set tips
           \<and> build_emotion_specific_response hash (emotion res) user_text = Inr (reply res)"
    if "?tip \<noteq> None"
  proof -
    from that have n: "\<not> detect_crisis py user_text \<and> ?N"
      by (simp del: insert_iff empty_iff split: if_splits)
    then have "reply res
        = (case map_of templates ?E of None \<Rightarrow> neutral_templates | Some c \<Rightarrow> c) ! ?i"
      unfolding r by (simp del: insert_iff empty_iff)
    then have "build_emotion_specific_response hash (emotion res) user_text = Inr (reply res)"
      unfolding em emotion_reply_value by simp
    with n tip_mem [of "hash user_text"] show ?thesis
      by (simp del: insert_iff empty_iff)
  qed
  have none: "reply res = crisis_reply \<or> reply res \<in> set joy_templates
           \<or> reply res \<in> set neutral_templates"
    if "?tip = None"
  proof (cases "detect_crisis py user_text")
    case True
    then show ?thesis unfolding r by simp
  next
    case False
    with that have n: "\<not> ?N" by (simp del: insert_iff empty_iff split: if_splits)
    show ?thesis
    proof (cases "?L = ''POSITIVE'' \<or> ?E = ''joy''")
      case True
      with False n have "reply res = joy_templates ! ?i"
        unfolding r by (simp del: insert_iff empty_iff)
      with pick_mem [of joy_templates "hash user_text"] show ?thesis
        by (simp add: template_lengths)
    next
      case p: False
      with False n have "reply res = neutral_templates ! ?i"
        unfolding r by (simp del: insert_iff empty_iff)
      with pick_mem [of neutral_templates "hash user_text"] show ?thesis
        by (simp add: template_lengths)
    qed
  qed
  show ?thesis
  proof (intro exI [where x = res] exI [where x = ?tip] conjI impI)
    show "chat_turn hash py user_text clf emo_clf = Inr (res, ?tip)" by (rule ct)
    show "analyze_and_respond hash py user_text clf emo_clf = Inr res" by (rule res)
    show "crisis res = detect_crisis py user_text" by (rule c)
    show "label res = ?L" by (rule l)
    show "emotion res = ?E" by (rule em)
    show "?tip \<noteq> None \<longleftrightarrow> \<not> crisis res \<and> (label res = ''NEGATIVE''
              \<or> emotion res \<in> {''sadness'', ''anger'', ''fear'', ''disgust''})" by (rule iff)
    show "?tip = Some (tips ! nat (\<bar>hash user_text\<bar> mod 4))" if "?tip \<noteq> None"
      using some [OF that] by (rule conjunct1)
    show "tips ! nat (\<bar>hash user_text\<bar> mod 4) \<in> set tips" by (rule tip_mem)
    show "build_emotion_specific_response hash (emotion res) user_text = Inr (reply res)"
      if "?tip \<noteq> None"
      using some [OF that] by (elim conjE)
    show "reply res = crisis_reply \<or> reply res \<in> set joy_templates
           \<or> reply res \<in> set neutral_templates" if "?tip = None"
      using that by (rule none)
  qed
qed

theorem coping_tip_iff_negative_non_crisis_witness:
  "\<exists>res. chat_turn (const_hash 3) ascii_builtins ''I got the job!''
            (fixed_pipeline ''POSITIVE'' 0.95) (fixed_pipeline ''joy'' 0.9) = Inr (res, None)
      \<and> \<not> crisis res \<and> label res = ''POSITIVE'' \<and> emotion res = ''joy''
      \<and> (reply res = crisis_reply \<or> reply res \<in> set joy_templates
           \<or> reply res \<in> set neutral_templates)"
proof -
  have nc: "\<not> detect_crisis ascii_builtins ''I got the job!''" by code_simp
  note turn = coping_tip_iff_negative_non_crisis [where user_text = "''I got the job!''"
      and clf = "fixed_pipeline ''POSITIVE'' 0.95" and emo_clf = "fixed_pipeline ''joy'' 0.9"
      and hash = "const_hash 3" and py = ascii_builtins,
      OF fixed_pipeline_first fixed_pipeline_emotion,
      simplified option.case py_str_Str case_examples]
  from turn obtain res tip where ct: "chat_turn (const_hash 3) ascii_builtins ''I got the job!''
            (fixed_pipeline ''POSITIVE'' 0.95) (fixed_pipeline ''joy'' 0.9) = Inr (res, tip)"
    and c: "crisis res = detect_crisis ascii_builtins ''I got the job!''"
    and l: "label res = ''POSITIVE''" and e: "emotion res = ''joy''"
    and iff: "tip \<noteq> None \<longleftrightarrow> \<not> crisis res \<and> (label res = ''NEGATIVE''
              \<or> emotion res \<in> {''sadness'', ''anger'', ''fear'', ''disgust''})"
    and none: "tip = None \<longrightarrow> reply res = crisis_reply \<or> reply res \<in> set joy_templates
           \<or> reply res \<in> set neutral_templates"
    by (elim exE conjE) (rule that)
  from iff l e have t: "tip = None" by simp
  from c nc have "\<not> crisis res" by simp
  with ct t l e none show ?thesis by simp
qed

lemma templates_nonempty: "(k, choices) \<in> set templates \<Longrightarrow> choices \<noteq> []"
proof -
  assume "(k, choices) \<in> set templates"
  then have "choices \<in> {sadness_templates, anger_templates, fear_templates,
      disgust_templates, surprise_templates, neutral_templates, joy_templates}"
    by (auto simp: templates_def)
  then have "length choices = 2" by (auto simp: template_lengths)
  then show ?thesis by auto
qed

text \<open>
  C9. Every template list and the tips list is non-empty. For every emotion label, text
  and hash function the key looked up is in the dictionary, the index
  \<^verbatim>\<open>abs(hash(text)) % len(choices)\<close> lies in \<open>[0, len(choices))\<close>, so neither the lookup,
  the modulus nor the indexing raises, and the reply returned is an element of the list
  chosen. The same holds for the index into the tips list.
\<close>

theorem selection_index_in_range:
  "(\<forall>(k, choices) \<in> set templates. choices \<noteq> []) \<and> tips \<noteq> []
   \<and> (\<exists>choices.
         map_of templates (if emo \<in> set (map fst templates) then emo else ''neutral'')
           = Some choices
         \<and> choices \<noteq> []
         \<and> 0 \<le> \<bar>hash user_text\<bar> mod int (length choices)
         \<and> \<bar>hash user_text\<bar> mod int (length choices) < int (length choices)
         \<and> build_emotion_specific_response hash emo user_text
             = Inr (choices ! nat (\<bar>hash user_text\<bar> mod int (length choices)))
         \<and> choices ! nat (\<bar>hash user_text\<bar> mod int (length choices)) \<in> set choices)
   \<and> 0 \<le> \<bar>hash user_text\<bar> mod int (length tips)
   \<and> \<bar>hash user_text\<bar> mod int (length tips) < int (length tips)
   \<and> py_index tips (\<bar>hash user_text\<bar> mod int (length tips))
       = Inr (tips ! nat (\<bar>hash user_text\<bar> mod int (length tips)))
   \<and> tips ! nat (\<bar>hash user_text\<bar> mod int (length tips)) \<in> set tips"
proof -
  let ?key = "if emo \<in> set (map fst templates) then emo else ''neutral''"
  have all: "\<forall>(k, choices) \<in> set templates. choices \<noteq> []"
    using templates_nonempty by blast
  have tn: "tips \<noteq> []" using tips_length by auto
  have "?key \<in> set (map fst templates)"
    by (simp add: template_keys del: set_map)
  then obtain choices where c: "map_of templates ?key = Some choices"
    using templates_known by blast
  then have len: "length choices = 2" by (rule templates_two)
  then have ne: "choices \<noteq> []" by auto
  have lo: "0 \<le> \<bar>hash user_text\<bar> mod int (length choices)"
    and hi: "\<bar>hash user_text\<bar> mod int (length choices) < int (length choices)"
    using len by simp_all
  have b: "build_emotion_specific_response hash emo user_text
      = Inr (choices ! nat (\<bar>hash user_text\<bar> mod int (length choices)))"
    unfolding build_emotion_specific_response_def Let_def c
    using select_by_hash [OF ne, of "hash user_text"] by simp
  have mem: "choices ! nat (\<bar>hash user_text\<bar> mod int (length choices)) \<in> set choices"
    using pick_mem [OF len, of "hash user_text"] len by simp
  have tlo: "0 \<le> \<bar>hash user_text\<bar> mod int (length tips)"
    and thi: "\<bar>hash user_text\<bar> mod int (length tips) < int (length tips)"
    by (simp_all add: tips_length)
  have ti: "py_index tips (\<bar>hash user_text\<bar> mod int (length tips))
       = Inr (tips ! nat (\<bar>hash user_text\<bar> mod int (length tips)))"
    using tlo thi by (rule py_index_in_range)
  have tm: "tips ! nat (\<bar>hash user_text\<bar> mod int (length tips)) \<in> set tips"
    using tip_mem [of "hash user_text"] by (simp add: tips_length)
  have ex: "\<exists>choices. map_of templates ?key = Some choices
         \<and> choices \<noteq> []
         \<and> 0 \<le> \<bar>hash user_text\<bar> mod int (length choices)
         \<and> \<bar>hash user_text\<bar> mod int (length choices) < int (length choices)
         \<and> build_emotion_specific_response hash emo user_text
             = Inr (choices ! nat (\<bar>hash user_text\<bar> mod int (length choices)))
         \<and> choices ! nat (\<bar>hash user_text\<bar> mod int (length choices)) \<in> set choices"
    by (rule exI [where x = choices]) (intro conjI c ne lo hi b mem)
  show ?thesis by (intro conjI all tn ex tlo thi ti tm)
qed

theorem selection_index_in_range_witness:
  "joy_templates \<noteq> []
   \<and> build_emotion_specific_response (const_hash (- 7)) ''joy'' ''I got the job!''
       = Inr (joy_templates ! 1)
   \<and> joy_templates ! 1 \<in> set joy_templates"
proof -
  note sel = selection_index_in_range [where emo = "''joy''" and hash = "const_hash (- 7)"
      and user_text = "''I got the job!''"]
  from sel have "\<forall>(k, choices) \<in> set templates. choices \<noteq> []" by (rule conjunct1)
  moreover have "(''joy'', joy_templates) \<in> set templates" by (simp add: templates_def)
  ultimately have ne: "joy_templates \<noteq> []" by fast
  from sel [THEN conjunct2, THEN conjunct2, THEN conjunct1]
  obtain choices where c: "map_of templates
        (if ''joy'' \<in> set (map fst templates) then ''joy'' else ''neutral'') = Some choices"
    and b: "build_emotion_specific_response (const_hash (- 7)) ''joy'' ''I got the job!''
        = Inr (choices ! nat (\<bar>const_hash (- 7) ''I got the job!''\<bar> mod int (length choices)))"
    and m: "choices ! nat (\<bar>const_hash (- 7) ''I got the job!''\<bar> mod int (length choices))
        \<in> set choices"
    by (elim exE conjE) (rule that)
  from c have cj: "choices = joy_templates"
    by (simp add: template_keys templates_lookup del: set_map)
  have i: "nat (\<bar>const_hash (- 7) ''I got the job!''\<bar> mod int (length joy_templates)) = 1"
    by (simp add: const_hash_def template_lengths)
  from b m show ?thesis unfolding cj i using ne by simp
qed

text \<open>
  C10. The reply does not depend on the sentiment score: two sentiment results with the
  same label (or both without one) and any two scores, present or missing, give the same
  reply for the same text, emotion result and hash; the score only appears in the
  \<open>score\<close> field of the result.
\<close>

theorem reply_independent_of_sentiment_score:
  assumes "clf1 user_text = \<lparr>pred_label = map_option Str lbl, pred_score = map_option Float sc1\<rparr> # ss1"
    and "clf2 user_text = \<lparr>pred_label = map_option Str lbl, pred_score = map_option Float sc2\<rparr> # ss2"
    and "emo_clf user_text = \<lparr>pred_label = ev, pred_score = map_option Float esc\<rparr> # es"
  shows "\<exists>res1 res2.
      analyze_and_respond hash py user_text clf1 emo_clf = Inr res1
      \<and> analyze_and_respond hash py user_text clf2 emo_clf = Inr res2
      \<and> reply res1 = reply res2
      \<and> score res1 = (case sc1 of None \<Rightarrow> 0.5 | Some x \<Rightarrow> x)
      \<and> score res2 = (case sc2 of None \<Rightarrow> 0.5 | Some x \<Rightarrow> x)"
proof -
  let ?L = "upper py (case lbl of None \<Rightarrow> ''NEUTRAL'' | Some l \<Rightarrow> l)"
  let ?E = "lower py (py_str py (case ev of None \<Rightarrow> Str ''neutral'' | Some v \<Rightarrow> v))"
  let ?reply = "if detect_crisis py user_text then crisis_reply
         else (if ?L = ''NEGATIVE'' \<or> ?E \<in> {''sadness'', ''anger'', ''fear'', ''disgust''}
               then (case map_of templates ?E of None \<Rightarrow> neutral_templates | Some c \<Rightarrow> c)
               else if ?L = ''POSITIVE'' \<or> ?E = ''joy'' then joy_templates
               else neutral_templates) ! nat (\<bar>hash user_text\<bar> mod 2)"
  from analyze_and_respond_value [where clf = clf1 and emo_clf = emo_clf and t = user_text
      and hash = hash and py = py, OF assms(1) assms(3)]
  obtain res1 where r1: "analyze_and_respond hash py user_text clf1 emo_clf = Inr res1"
    and s1: "score res1 = (case sc1 of None \<Rightarrow> 0.5 | Some x \<Rightarrow> x)"
    and p1: "reply res1 = ?reply"
    by simp
  from analyze_and_respond_value [where clf = clf2 and emo_clf = emo_clf and t = user_text
      and hash = hash and py = py, OF assms(2) assms(3)]
  obtain res2 where r2: "analyze_and_respond hash py user_text clf2 emo_clf = Inr res2"
    and s2: "score res2 = (case sc2 of None \<Rightarrow> 0.5 | Some x \<Rightarrow> x)"
    and p2: "reply res2 = ?reply"
    by simp
  have eq: "reply res1 = reply res2" unfolding p1 p2 ..
  show ?thesis
    by (rule exI [where x = res1], rule exI [where x = res2]) (intro conjI r1 r2 eq s1 s2)
qed

theorem reply_independent_of_sentiment_score_witness:
  "\<exists>res1 res2.
      analyze_and_respond (const_hash 5) ascii_builtins ''I feel low''
          (fixed_pipeline ''NEGATIVE'' 0.55) (fixed_pipeline ''sadness'' 0.8) = Inr res1
      \<and> analyze_and_respond (const_hash 5) ascii_builtins ''I feel low''
          (fixed_pipeline ''NEGATIVE'' 0.99) (fixed_pipeline ''sadness'' 0.8) = Inr res2
      \<and> reply res1 = reply res2 \<and> score res1 = 0.55 \<and> score res2 = 0.99"
proof -
  from reply_independent_of_sentiment_score [where user_text = "''I feel low''"
      and ?clf1.0 = "fixed_pipeline ''NEGATIVE'' 0.55"
      and ?clf2.0 = "fixed_pipeline ''NEGATIVE'' 0.99"
      and emo_clf = "fixed_pipeline ''sadness'' 0.8" and hash = "const_hash 5"
      and py = ascii_builtins,
      OF fixed_pipeline_first fixed_pipeline_first fixed_pipeline_emotion]
  show ?thesis by simp
qed

lemma unknown_emotion:
  assumes "k \<notin> set (map fst templates)"
  shows "k \<notin> {''sadness'', ''anger'', ''fear'', ''disgust''}" and "k \<noteq> ''joy''"
    and "k \<noteq> ''neutral''"
  using assms unfolding template_keys by simp_all

lemma unknown_emotion_reply:
  assumes "k \<notin> set (map fst templates)"
  shows "build_emotion_specific_response hash k t
      = Inr (neutral_templates ! nat (\<bar>hash t\<bar> mod 2))"
proof -
  from assms have "map_of templates k = None" by (rule templates_unknown)
  then show ?thesis unfolding emotion_reply_value by simp
qed

text \<open>
  C8. When each classifier returns at least one dictionary whose label, if present, is a
  string (for the emotion label any value will do) and whose score, if present, is a
  float, the engine and the chat turn return a result and raise nothing. A missing
  sentiment label reads as NEUTRAL, a missing emotion label as neutral, a missing score
  as 0.5. A sentiment label other than NEGATIVE and POSITIVE takes the path of the label
  NEUTRAL: off a crisis text the reply is the emotion-specific one for sadness, anger,
  fear and disgust, a joy template for joy, and a neutral template otherwise. An emotion
  label outside the template dictionary is treated as neutral:
  \<open>build_emotion_specific_response\<close> selects a neutral template for it, and off a crisis
  text the engine's reply is a neutral template, except under the sentiment label
  POSITIVE, where it is a joy template as it is for the label neutral.
\<close>

theorem malformed_results_are_defaulted:
  assumes "clf user_text = \<lparr>pred_label = map_option Str lbl, pred_score = map_option Float sc\<rparr> # ss"
    and "emo_clf user_text = \<lparr>pred_label = ev, pred_score = map_option Float esc\<rparr> # es"
  shows "\<exists>res. analyze_and_respond hash py user_text clf emo_clf = Inr res
     \<and> (\<exists>tip. chat_turn hash py user_text clf emo_clf = Inr (res, tip))
     \<and> label res = upper py (case lbl of None \<Rightarrow> ''NEUTRAL'' | Some l \<Rightarrow> l)
     \<and> score res = (case sc of None \<Rightarrow> 0.5 | Some x \<Rightarrow> x)
     \<and> emotion res = lower py (py_str py (case ev of None \<Rightarrow> Str ''neutral'' | Some v \<Rightarrow> v))
     \<and> emotion_score res = (case esc of None \<Rightarrow> 0.5 | Some x \<Rightarrow> x)
     \<and> crisis res = detect_crisis py user_text
     \<and> (lbl = None \<longrightarrow> label res = ''NEUTRAL'')
     \<and> (sc = None \<longrightarrow> score res = 0.5)
     \<and> (ev = None \<longrightarrow> emotion res = ''neutral'')
     \<and> (esc = None \<longrightarrow> emotion_score res = 0.5)
     \<and> (label res \<notin> {''NEGATIVE'', ''POSITIVE''} \<longrightarrow>
          (\<exists>res'. analyze_and_respond hash py user_text
                    (raw_pipeline \<lparr>pred_label = Some (Str ''NEUTRAL''),
                                   pred_score = map_option Float sc\<rparr>) emo_clf = Inr res'
             \<and> reply res' = reply res)
          \<and> (\<not> crisis res \<longrightarrow>
                (emotion res \<in> {''sadness'', ''anger'', ''fear'', ''disgust''} \<longrightarrow>
                   build_emotion_specific_response hash (emotion res) user_text = Inr (reply res))
                \<and> (emotion res = ''joy'' \<longrightarrow> reply res \<in> set joy_templates)
                \<and> (emotion res \<notin> {''sadness'', ''anger'', ''fear'', ''disgust'', ''joy''} \<longrightarrow>
                   reply res \<in> set neutral_templates)))
     \<and> (emotion res \<notin> set (map fst templates) \<longrightarrow>
          build_emotion_specific_response hash (emotion res) user_text
            = Inr (neutral_templates ! nat (\<bar>hash user_text\<bar> mod 2))
          \<and> neutral_templates ! nat (\<bar>hash user_text\<bar> mod 2) \<in> set neutral_templates
          \<and> build_emotion_specific_response hash (emotion res) user_text
            = build_emotion_specific_response hash ''neutral'' user_text
          \<and> (\<exists>res'. analyze_and_respond hash py user_text clf
                    (raw_pipeline \<lparr>pred_label = Some (Str ''neutral''),
                                   pred_score = map_option Float esc\<rparr>) = Inr res'
             \<and> reply res' = reply res)
          \<and> (\<not> crisis res \<and> label res \<noteq> ''POSITIVE'' \<longrightarrow>
                reply res \<in> set neutral_templates)
          \<and> (\<not> crisis res \<and> label res = ''POSITIVE'' \<longrightarrow>
                reply res \<in> set joy_templates))"
proof -
  let ?L = "upper py (case lbl of None \<Rightarrow> ''NEUTRAL'' | Some l \<Rightarrow> l)"
  let ?E = "lower py (py_str py (case ev of None \<Rightarrow> Str ''neutral'' | Some v \<Rightarrow> v))"
  let ?i = "nat (\<bar>hash user_text\<bar> mod 2)"
  let ?reply = "\<lambda>L E. if detect_crisis py user_text then crisis_reply
         else (if L = ''NEGATIVE'' \<or> E \<in> {''sadness'', ''anger'', ''fear'', ''disgust''}
               then (case map_of templates E of None \<Rightarrow> neutral_templates | Some c \<Rightarrow> c)
               else if L = ''POSITIVE'' \<or> E = ''joy'' then joy_templates
               else neutral_templates) ! ?i"
  from analyze_and_respond_value [where clf = clf and emo_clf = emo_clf and t = user_text
      and hash = hash and py = py, OF assms]
  have "\<exists>res. analyze_and_respond hash py user_text clf emo_clf = Inr res
      \<and> label res = ?L \<and> score res = (case sc of None \<Rightarrow> 0.5 | Some x \<Rightarrow> x)
      \<and> emotion res = ?E
      \<and> emotion_score res = (case esc of None \<Rightarrow> 0.5 | Some x \<Rightarrow> x)
      \<and> crisis res = detect_crisis py user_text
      \<and> reply res = ?reply ?L ?E"
    by simp
  then obtain res where res: "analyze_and_respond hash py user_text clf emo_clf = Inr res"
    and l: "label res = ?L"
    and sc: "score res = (case sc of None \<Rightarrow> 0.5 | Some x \<Rightarrow> x)"
    and em: "emotion res = ?E"
    and es: "emotion_score res = (case esc of None \<Rightarrow> 0.5 | Some x \<Rightarrow> x)"
    and c: "crisis res = detect_crisis py user_text"
    and r: "reply res = ?reply ?L ?E"
    by (elim exE conjE) (rule that)
  have tip: "\<exists>tip. chat_turn hash py user_text clf emo_clf = Inr (res, tip)"
    by (simp add: chat_turn_def res coping_tip_value del: insert_iff empty_iff)
  have joy_mem: "joy_templates ! ?i \<in> set joy_templates"
    by (rule pick_mem) (simp add: template_lengths)
  have neu_mem: "neutral_templates ! ?i \<in> set neutral_templates"
    by (rule pick_mem) (simp add: template_lengths)
  have sent: "(\<exists>res'. analyze_and_respond hash py user_text
                    (raw_pipeline \<lparr>pred_label = Some (Str ''NEUTRAL''),
                                   pred_score = map_option Float sc\<rparr>) emo_clf = Inr res'
             \<and> reply res' = reply res)
          \<and> (\<not> crisis res \<longrightarrow>
                (emotion res \<in> {''sadness'', ''anger'', ''fear'', ''disgust''} \<longrightarrow>
                   build_emotion_specific_response hash (emotion res) user_text = Inr (reply res))
                \<and> (emotion res = ''joy'' \<longrightarrow> reply res \<in> set joy_templates)
                \<and> (emotion res \<notin> {''sadness'', ''anger'', ''fear'', ''disgust'', ''joy''} \<longrightarrow>
                   reply res \<in> set neutral_templates))"
    if u: "label res \<notin> {''NEGATIVE'', ''POSITIVE''}"
  proof (intro conjI impI)
    from u l have n: "?L \<noteq> ''NEGATIVE''" and p: "?L \<noteq> ''POSITIVE''" by simp_all
    have shape: "raw_pipeline \<lparr>pred_label = Some (Str ''NEUTRAL''),
          pred_score = map_option Float sc\<rparr> user_text
        = \<lparr>pred_label = map_option Str (Some ''NEUTRAL''), pred_score = map_option Float sc\<rparr> # []"
      by (simp add: raw_pipeline_def)
    from analyze_and_respond_value [where clf = "raw_pipeline \<lparr>pred_label = Some (Str ''NEUTRAL''),
          pred_score = map_option Float sc\<rparr>"
        and emo_clf = emo_clf and t = user_text and hash = hash and py = py,
        OF shape assms(2)]
    obtain res' where res': "analyze_and_respond hash py user_text
          (raw_pipeline \<lparr>pred_label = Some (Str ''NEUTRAL''),
             pred_score = map_option Float sc\<rparr>) emo_clf = Inr res'"
      and r': "reply res' = ?reply ''NEUTRAL'' ?E"
      by (simp add: case_examples)
    have "?reply ''NEUTRAL'' ?E = ?reply ?L ?E"
      using n p by (simp del: insert_iff empty_iff)
    with r r' have "reply res' = reply res" by simp
    with res' show "\<exists>res'. analyze_and_respond hash py user_text
                    (raw_pipeline \<lparr>pred_label = Some (Str ''NEUTRAL''),
                                   pred_score = map_option Float sc\<rparr>) emo_clf = Inr res'
             \<and> reply res' = reply res"
      by (intro exI [where x = res'] conjI)
    show "build_emotion_specific_response hash (emotion res) user_text = Inr (reply res)"
      if "\<not> crisis res" and "emotion res \<in> {''sadness'', ''anger'', ''fear'', ''disgust''}"
      using that unfolding c em r emotion_reply_value by (simp del: insert_iff empty_iff)
    show "reply res \<in> set joy_templates" if "\<not> crisis res" and "emotion res = ''joy''"
    proof -
      from that have "reply res = joy_templates ! ?i"
        using n p unfolding c em r by simp
      with joy_mem show ?thesis by simp
    qed
    show "reply res \<in> set neutral_templates"
      if "\<not> crisis res"
        and "emotion res \<notin> {''sadness'', ''anger'', ''fear'', ''disgust'', ''joy''}"
    proof -
      from that(2) have "emotion res \<notin> {''sadness'', ''anger'', ''fear'', ''disgust''}"
        and "emotion res \<noteq> ''joy''" by simp_all
      with that(1) have "reply res = neutral_templates ! ?i"
        using n p unfolding c em r by (simp del: insert_iff empty_iff)
      with neu_mem show ?thesis by simp
    qed
  qed
  have emo: "build_emotion_specific_response hash (emotion res) user_text
            = Inr (neutral_templates ! nat (\<bar>hash user_text\<bar> mod 2))
          \<and> neutral_templates ! nat (\<bar>hash user_text\<bar> mod 2) \<in> set neutral_templates
          \<and> build_emotion_specific_response hash (emotion res) user_text
            = build_emotion_specific_response hash ''neutral'' user_text
          \<and> (\<exists>res'. analyze_and_respond hash py user_text clf
                    (raw_pipeline \<lparr>pred_label = Some (Str ''neutral''),
                                   pred_score = map_option Float esc\<rparr>) = Inr res'
             \<and> reply res' = reply res)
          \<and> (\<not> crisis res \<and> label res \<noteq> ''POSITIVE'' \<longrightarrow>
                reply res \<in> set neutral_templates)
          \<and> (\<not> crisis res \<and> label res = ''POSITIVE'' \<longrightarrow>
                reply res \<in> set joy_templates)"
    if u: "emotion res \<notin> set (map fst templates)"
  proof (intro conjI impI)
    from u em have k: "?E \<notin> set (map fst templates)" by simp
    note uk = unknown_emotion [OF k]
    from k have none: "map_of templates ?E = None" by (rule templates_unknown)
    show b1: "build_emotion_specific_response hash (emotion res) user_text
            = Inr (neutral_templates ! nat (\<bar>hash user_text\<bar> mod 2))"
      using u by (rule unknown_emotion_reply)
    show "neutral_templates ! nat (\<bar>hash user_text\<bar> mod 2) \<in> set neutral_templates"
      by (rule neu_mem)
    show "build_emotion_specific_response hash (emotion res) user_text
            = build_emotion_specific_response hash ''neutral'' user_text"
      unfolding em emotion_reply_value none by (simp add: templates_lookup)
    have shape: "raw_pipeline \<lparr>pred_label = Some (Str ''neutral''),
          pred_score = map_option Float esc\<rparr> user_text
        = \<lparr>pred_label = Some (Str ''neutral''), pred_score = map_option Float esc\<rparr> # []"
      by (simp add: raw_pipeline_def)
    from analyze_and_respond_value [where clf = clf
        and emo_clf = "raw_pipeline \<lparr>pred_label = Some (Str ''neutral''),
          pred_score = map_option Float esc\<rparr>"
        and t = user_text and hash = hash and py = py, OF assms(1) shape]
    obtain res' where res': "analyze_and_respond hash py user_text clf
          (raw_pipeline \<lparr>pred_label = Some (Str ''neutral''),
             pred_score = map_option Float esc\<rparr>) = Inr res'"
      and r': "reply res' = ?reply ?L ''neutral''"
      by (simp add: case_examples py_str_Str)
    have nn: "''neutral'' \<notin> {''sadness'', ''anger'', ''fear'', ''disgust''}" by simp
    have "?reply ?L ''neutral'' = ?reply ?L ?E"
      using uk none nn by (simp add: templates_lookup del: insert_iff empty_iff)
    with r r' have "reply res' = reply res" by simp
    with res' show "\<exists>res'. analyze_and_respond hash py user_text clf
                    (raw_pipeline \<lparr>pred_label = Some (Str ''neutral''),
                                   pred_score = map_option Float esc\<rparr>) = Inr res'
             \<and> reply res' = reply res"
      by (intro exI [where x = res'] conjI)
    show "reply res \<in> set neutral_templates"
      if "\<not> crisis res \<and> label res \<noteq> ''POSITIVE''"
    proof -
      from that have "reply res = neutral_templates ! ?i"
        using uk none unfolding c l r by (simp del: insert_iff empty_iff)
      with neu_mem show ?thesis by simp
    qed
    show "reply res \<in> set joy_templates"
      if "\<not> crisis res \<and> label res = ''POSITIVE''"
    proof -
      from that have "reply res = joy_templates ! ?i"
        using uk none unfolding c l r by (simp del: insert_iff empty_iff)
      with joy_mem show ?thesis by simp
    qed
  qed
  show ?thesis
  proof (rule exI [where x = res], intro conjI)
    show "analyze_and_respond hash py user_text clf emo_clf = Inr res" by (rule res)
    show "\<exists>tip. chat_turn hash py user_text clf emo_clf = Inr (res, tip)" by (rule tip)
    show "label res = ?L" by (rule l)
    show "score res = (case sc of None \<Rightarrow> 0.5 | Some x \<Rightarrow> x)" by (rule sc)
    show "emotion res = ?E" by (rule em)
    show "emotion_score res = (case esc of None \<Rightarrow> 0.5 | Some x \<Rightarrow> x)" by (rule es)
    show "crisis res = detect_crisis py user_text" by (rule c)
    show "lbl = None \<longrightarrow> label res = ''NEUTRAL''"
      using l by (simp add: case_examples)
    show "sc = None \<longrightarrow> score res = 0.5" using sc by simp
    show "ev = None \<longrightarrow> emotion res = ''neutral''"
      using em by (simp add: case_examples py_str_Str)
    show "esc = None \<longrightarrow> emotion_score res = 0.5" using es by simp
    show "label res \<notin> {''NEGATIVE'', ''POSITIVE''} \<longrightarrow>
          (\<exists>res'. analyze_and_respond hash py user_text
                    (raw_pipeline \<lparr>pred_label = Some (Str ''NEUTRAL''),
                                   pred_score = map_option Float sc\<rparr>) emo_clf = Inr res'
             \<and> reply res' = reply res)
          \<and> (\<not> crisis res \<longrightarrow>
                (emotion res \<in> {''sadness'', ''anger'', ''fear'', ''disgust''} \<longrightarrow>
                   build_emotion_specific_response hash (emotion res) user_text = Inr (reply res))
                \<and> (emotion res = ''joy'' \<longrightarrow> reply res \<in> set joy_templates)
                \<and> (emotion res \<notin> {''sadness'', ''anger'', ''fear'', ''disgust'', ''joy''} \<longrightarrow>
                   reply res \<in> set neutral_templates))"
      by (rule impI) (rule sent)
    show "emotion res \<notin> set (map fst templates) \<longrightarrow>
          build_emotion_specific_response hash (emotion res) user_text
            = Inr (neutral_templates ! nat (\<bar>hash user_text\<bar> mod 2))
          \<and> neutral_templates ! nat (\<bar>hash user_text\<bar> mod 2) \<in> set neutral_templates
          \<and> build_emotion_specific_response hash (emotion res) user_text
            = build_emotion_specific_response hash ''neutral'' user_text
          \<and> (\<exists>res'. analyze_and_respond hash py user_text clf
                    (raw_pipeline \<lparr>pred_label = Some (Str ''neutral''),
                                   pred_score = map_option Float esc\<rparr>) = Inr res'
             \<and> reply res' = reply res)
          \<and> (\<not> crisis res \<and> label res \<noteq> ''POSITIVE'' \<longrightarrow>
                reply res \<in> set neutral_templates)
          \<and> (\<not> crisis res \<and> label res = ''POSITIVE'' \<longrightarrow>
                reply res \<in> set joy_templates)"
      by (rule impI) (rule emo)
  qed
qed

theorem malformed_results_are_defaulted_witness:
  "\<exists>res. analyze_and_respond (const_hash 2) ascii_builtins ''hello there''
            (raw_pipeline \<lparr>pred_label = Some (Str ''mixed''), pred_score = None\<rparr>)
            (raw_pipeline \<lparr>pred_label = Some (Str ''confused''), pred_score = None\<rparr>) = Inr res
     \<and> label res = ''MIXED'' \<and> score res = 0.5
     \<and> emotion res = ''confused'' \<and> emotion_score res = 0.5
     \<and> \<not> crisis res \<and> reply res \<in> set neutral_templates"
proof -
  have s1: "raw_pipeline \<lparr>pred_label = Some (Str ''mixed''), pred_score = None\<rparr> ''hello there''
      = \<lparr>pred_label = map_option Str (Some ''mixed''), pred_score = map_option Float None\<rparr> # []"
    by (simp add: raw_pipeline_def)
  have s2: "raw_pipeline \<lparr>pred_label = Some (Str ''confused''), pred_score = None\<rparr> ''hello there''
      = \<lparr>pred_label = Some (Str ''confused''), pred_score = map_option Float None\<rparr> # []"
    by (simp add: raw_pipeline_def)
  have u: "upper ascii_builtins ''mixed'' = ''MIXED''" by code_simp
  have lo: "lower ascii_builtins ''confused'' = ''confused''"
    by (simp add: lower_def is_ascii_def lower_char_def)
  have nc: "\<not> detect_crisis ascii_builtins ''hello there''" by code_simp
  from malformed_results_are_defaulted [where user_text = "''hello there''"
      and clf = "raw_pipeline \<lparr>pred_label = Some (Str ''mixed''), pred_score = None\<rparr>"
      and emo_clf = "raw_pipeline \<lparr>pred_label = Some (Str ''confused''), pred_score = None\<rparr>"
      and hash = "const_hash 2" and py = ascii_builtins, OF s1 s2]
  obtain res where a: "analyze_and_respond (const_hash 2) ascii_builtins ''hello there''
            (raw_pipeline \<lparr>pred_label = Some (Str ''mixed''), pred_score = None\<rparr>)
            (raw_pipeline \<lparr>pred_label = Some (Str ''confused''), pred_score = None\<rparr>) = Inr res"
    and l: "label res = upper ascii_builtins (case Some ''mixed'' of None \<Rightarrow> ''NEUTRAL'' | Some l \<Rightarrow> l)"
    and s: "score res = (case None of None \<Rightarrow> 0.5 | Some x \<Rightarrow> x)"
    and e: "emotion res = lower ascii_builtins (py_str ascii_builtins
        (case Some (Str ''confused'') of None \<Rightarrow> Str ''neutral'' | Some v \<Rightarrow> v))"
    and es: "emotion_score res = (case None of None \<Rightarrow> 0.5 | Some x \<Rightarrow> x)"
    and c: "crisis res = detect_crisis ascii_builtins ''hello there''"
    and unknown: "emotion res \<notin> set (map fst templates) \<longrightarrow>
          build_emotion_specific_response (const_hash 2) (emotion res) ''hello there''
            = Inr (neutral_templates ! nat (\<bar>const_hash 2 ''hello there''\<bar> mod 2))
          \<and> neutral_templates ! nat (\<bar>const_hash 2 ''hello there''\<bar> mod 2) \<in> set neutral_templates
          \<and> build_emotion_specific_response (const_hash 2) (emotion res) ''hello there''
            = build_emotion_specific_response (const_hash 2) ''neutral'' ''hello there''
          \<and> (\<exists>res'. analyze_and_respond (const_hash 2) ascii_builtins ''hello there''
                    (raw_pipeline \<lparr>pred_label = Some (Str ''mixed''), pred_score = None\<rparr>)
                    (raw_pipeline \<lparr>pred_label = Some (Str ''neutral''),
                                   pred_score = map_option Float None\<rparr>) = Inr res'
             \<and> reply res' = reply res)
          \<and> (\<not> crisis res \<and> label res \<noteq> ''POSITIVE'' \<longrightarrow>
                reply res \<in> set neutral_templates)
          \<and> (\<not> crisis res \<and> label res = ''POSITIVE'' \<longrightarrow>
                reply res \<in> set joy_templates)"
    by (elim exE conjE) (rule that)
  from l u have l': "label res = ''MIXED''" by simp
  from s have s': "score res = 0.5" by simp
  from e lo have e': "emotion res = ''confused''" by (simp add: py_str_Str)
  from es have es': "emotion_score res = 0.5" by simp
  from c nc have c': "\<not> crisis res" by simp
  from e' have "emotion res \<notin> set (map fst templates)"
    by (simp add: template_keys del: set_map)
  with unknown have "\<not> crisis res \<and> label res \<noteq> ''POSITIVE'' \<longrightarrow>
                reply res \<in> set neutral_templates"
    by (simp del: set_map)
  with c' l' have r: "reply res \<in> set neutral_templates" by simp
  show ?thesis
    by (rule exI [where x = res]) (intro conjI a l' s' e' es' c' r)
qed

text \<open>
  C8, as stated, fails: the engine raises \<^verbatim>\<open>IndexError\<close> when a classifier returns no
  dictionary, \<^verbatim>\<open>AttributeError\<close> when the sentiment label is \<^verbatim>\<open>None\<close>, and \<^verbatim>\<open>TypeError\<close> when
  a score is \<^verbatim>\<open>None\<close>; the chat turn passes the exception on to its \<^verbatim>\<open>except\<close> clause. And
  under the sentiment label POSITIVE an unknown emotion label gets a joy template, not a
  neutral one.
\<close>

theorem malformed_results_counterexample:
  "analyze_and_respond (const_hash 0) ascii_builtins ''hello there''
       empty_pipeline (fixed_pipeline ''neutral'' 0.9) = Inl IndexError
   \<and> chat_turn (const_hash 0) ascii_builtins ''hello there''
       empty_pipeline (fixed_pipeline ''neutral'' 0.9) = Inl IndexError
   \<and> analyze_and_respond (const_hash 0) ascii_builtins ''hello there''
       (raw_pipeline \<lparr>pred_label = Some NoneValue, pred_score = Some (Float 0.9)\<rparr>)
       (fixed_pipeline ''neutral'' 0.9) = Inl AttributeError
   \<and> analyze_and_respond (const_hash 0) ascii_builtins ''hello there''
       (raw_pipeline \<lparr>pred_label = Some (Str ''NEGATIVE''), pred_score = Some NoneValue\<rparr>)
       (fixed_pipeline ''neutral'' 0.9) = Inl TypeError
   \<and> analyze_and_respond (const_hash 0) ascii_builtins ''hello there''
       (fixed_pipeline ''POSITIVE'' 0.9) (fixed_pipeline ''confused'' 0.9)
     = Inr \<lparr>label = ''POSITIVE'', score = 0.9, emotion = ''confused'', emotion_score = 0.9,
            crisis = False, reply = joy_templates ! 0\<rparr>
   \<and> joy_templates ! 0 \<notin> set neutral_templates"
proof (intro conjI)
  have e: "empty_pipeline ''hello there'' = []" by (simp add: empty_pipeline_def)
  show a: "analyze_and_respond (const_hash 0) ascii_builtins ''hello there''
       empty_pipeline (fixed_pipeline ''neutral'' 0.9) = Inl IndexError"
    using e by (rule analyze_and_respond_empty)
  show "chat_turn (const_hash 0) ascii_builtins ''hello there''
       empty_pipeline (fixed_pipeline ''neutral'' 0.9) = Inl IndexError"
    unfolding chat_turn_def a by simp
  show "analyze_and_respond (const_hash 0) ascii_builtins ''hello there''
       (raw_pipeline \<lparr>pred_label = Some NoneValue, pred_score = Some (Float 0.9)\<rparr>)
       (fixed_pipeline ''neutral'' 0.9) = Inl AttributeError"
    by (simp add: analyze_and_respond_def raw_pipeline_def py_index_first call_upper_def)
  have u: "call_upper ascii_builtins (Str ''NEGATIVE'') = Inr ''NEGATIVE''"
    by (simp add: call_upper_def case_examples)
  show "analyze_and_respond (const_hash 0) ascii_builtins ''hello there''
       (raw_pipeline \<lparr>pred_label = Some (Str ''NEGATIVE''), pred_score = Some NoneValue\<rparr>)
       (fixed_pipeline ''neutral'' 0.9) = Inl TypeError"
    by (simp add: analyze_and_respond_def raw_pipeline_def py_index_first u py_float_def)
  have nc: "\<not> detect_crisis ascii_builtins ''hello there''" by code_simp
  have lo: "lower ascii_builtins ''confused'' = ''confused''"
    by (simp add: lower_def is_ascii_def lower_char_def)
  show "analyze_and_respond (const_hash 0) ascii_builtins ''hello there''
       (fixed_pipeline ''POSITIVE'' 0.9) (fixed_pipeline ''confused'' 0.9)
     = Inr \<lparr>label = ''POSITIVE'', score = 0.9, emotion = ''confused'', emotion_score = 0.9,
            crisis = False, reply = joy_templates ! 0\<rparr>"
    using nc
    by (simp add: analyze_and_respond_value [OF fixed_pipeline_first fixed_pipeline_emotion]
        case_examples py_str_Str lo const_hash_def)
  show "joy_templates ! 0 \<notin> set neutral_templates"
    by (simp add: joy_templates_def neutral_templates_def)
qed

end
